theory Spec2Isabelle
  imports Main "HOL-Library.Word" "HOL-Library.Sublist"
begin

unbundle bit_operations_syntax

section \<open>Python values and exceptions\<close>

text \<open>
  The module passes value trees to \<^verbatim>\<open>cbor2.dumps\<close> and receives value trees from
  \<^verbatim>\<open>cbor2.loads\<close>. A value tree is one of the Python values of the CBOR data model:
  \<^verbatim>\<open>None\<close>, a bool, an int (unbounded), a float (an IEEE double, kept as its 64 bits),
  a str, a bytes object, a list, or a dict. A dict is kept as the list of its items in
  insertion order (the order \<^verbatim>\<open>cbor2.dumps\<close> writes them in); a lookup takes the first
  item with the key. Values of cbor2's extension types (tags, sets, dates) are not modelled.
\<close>

type_synonym byte = "8 word"

datatype pyval =
    PNone
  | PBool bool
  | PInt int
  | PFloat "64 word"
  | PStr string
  | PBytes "byte list"
  | PList "pyval list"
  | PDict "(pyval \<times> pyval) list"

text \<open>
  Every way a call can fail. \<open>IoctlError\<close> is the module's own exception class
  (\<^verbatim>\<open>from .exceptions import IoctlError\<close>), raised with one argument. \<open>OSError\<close> carries
  the errno of a failed system call. \<open>Fault\<close> stands for a raw read through a pointer
  that touches memory that is not mapped: no Python exception, the process dies.
\<close>

datatype error =
    ValueError string
  | IoctlError pyval
  | AttributeError
  | TypeError
  | AssertionError
  | OSError nat
  | CBORDecodeError
  | Fault

text \<open>\<^verbatim>\<open>isinstance(x, dict)\<close>\<close>

fun isinstance_dict :: "pyval \<Rightarrow> bool" where
  "isinstance_dict (PDict _) = True"
| "isinstance_dict _ = False"

text \<open>
  \<^verbatim>\<open>key in x\<close> for a str \<open>key\<close>: key membership on a dict, substring test on a str,
  element membership on a list; bytes refuses a str operand and the scalars are not
  iterable (both \<^verbatim>\<open>TypeError\<close>).
\<close>

fun str_in :: "string \<Rightarrow> pyval \<Rightarrow> error + bool" where
  "str_in key (PDict items) = Inr (map_of items (PStr key) \<noteq> None)"
| "str_in key (PStr s) = Inr (sublist key s)"
| "str_in key (PList xs) = Inr (PStr key \<in> set xs)"
| "str_in key (PBytes _) = Inl TypeError"
| "str_in key PNone = Inl TypeError"
| "str_in key (PBool _) = Inl TypeError"
| "str_in key (PInt _) = Inl TypeError"
| "str_in key (PFloat _) = Inl TypeError"

text \<open>
  \<^verbatim>\<open>x.get(key)\<close> for a str \<open>key\<close>: on a dict the value under the key, \<^verbatim>\<open>None\<close> when the
  key is absent; no other modelled value has a \<^verbatim>\<open>get\<close> attribute.
\<close>

fun py_get :: "pyval \<Rightarrow> string \<Rightarrow> error + pyval" where
  "py_get (PDict items) key =
     Inr (case map_of items (PStr key) of None \<Rightarrow> PNone | Some v \<Rightarrow> v)"
| "py_get _ key = Inl AttributeError"

text \<open>
  \<^verbatim>\<open>xs[:n]\<close> on a sequence: the first \<open>n\<close> items, all of them when there are fewer; a
  negative \<open>n\<close> counts from the end.
\<close>

definition slice_to :: "'a list \<Rightarrow> int \<Rightarrow> 'a list" where
  "slice_to xs n = (if 0 \<le> n then take (nat n) xs else take (length xs - nat (- n)) xs)"

text \<open>
  \<^verbatim>\<open>x[:n]\<close> on a value: bytes, str and list are sliced; the scalars are not
  subscriptable and a dict refuses a slice as a key (\<^verbatim>\<open>TypeError\<close>).
\<close>

fun py_slice_to :: "pyval \<Rightarrow> int \<Rightarrow> error + pyval" where
  "py_slice_to (PBytes bs) n = Inr (PBytes (slice_to bs n))"
| "py_slice_to (PStr s) n = Inr (PStr (slice_to s n))"
| "py_slice_to (PList xs) n = Inr (PList (slice_to xs n))"
| "py_slice_to _ n = Inl TypeError"

section \<open>Raw memory and ctypes buffers\<close>

text \<open>
  The buffers the kernel reads and writes live in raw memory: a map from addresses to
  bytes, \<open>None\<close> where nothing is mapped.
\<close>

type_synonym memory = "nat \<Rightarrow> byte option"

definition write_bytes :: "memory \<Rightarrow> nat \<Rightarrow> byte list \<Rightarrow> memory" where
  "write_bytes m a bs = (\<lambda>x. if a \<le> x \<and> x < a + length bs then Some (bs ! (x - a)) else m x)"

definition zero_fill :: "memory \<Rightarrow> nat \<Rightarrow> nat \<Rightarrow> memory" where
  "zero_fill m a n = (\<lambda>x. if a \<le> x \<and> x < a + n then Some 0 else m x)"

text \<open>The \<open>n\<close> bytes at address \<open>a\<close>; \<open>None\<close> when one of them is not mapped.\<close>

definition read_bytes :: "memory \<Rightarrow> nat \<Rightarrow> nat \<Rightarrow> byte list option" where
  "read_bytes m a n = those (map m [a ..< a + n])"

section \<open>structs.py\<close>

record IoVec =
  iov_base :: nat
  iov_len :: nat

record NsmMessage =
  request :: IoVec
  response :: IoVec

text \<open>\<^verbatim>\<open>NsmMessage()\<close>: a ctypes structure is created with every field zero.\<close>

definition NsmMessage_new :: NsmMessage where
  "NsmMessage_new =
     \<lparr>request = \<lparr>iov_base = 0, iov_len = 0\<rparr>, response = \<lparr>iov_base = 0, iov_len = 0\<rparr>\<rparr>"

text \<open>
  \<^verbatim>\<open>ctypes.sizeof\<close>. The fields \<^verbatim>\<open>c_void_p\<close> and \<^verbatim>\<open>c_size_t\<close> have the platform's pointer
  width: 4 bytes under the ILP32 data model, 8 under LP64. ctypes lays a structure out as
  the C compiler does: each field at the next offset that is a multiple of its alignment,
  the whole padded to a multiple of the largest alignment.
\<close>

datatype data_model = ILP32 | LP64

record c_type =
  c_size :: nat
  c_align :: nat

definition align_up :: "nat \<Rightarrow> nat \<Rightarrow> nat" where
  "align_up n a = ((n + a - 1) div a) * a"

definition c_struct :: "c_type list \<Rightarrow> c_type" where
  "c_struct members =
     (let al = foldr (\<lambda>f. max (c_align f)) members 1;
          used = foldl (\<lambda>off f. align_up off (c_align f) + c_size f) 0 members
      in \<lparr>c_size = align_up used al, c_align = al\<rparr>)"

fun pointer_width :: "data_model \<Rightarrow> nat" where
  "pointer_width ILP32 = 4"
| "pointer_width LP64 = 8"

definition c_void_p :: "data_model \<Rightarrow> c_type" where
  "c_void_p dm = \<lparr>c_size = pointer_width dm, c_align = pointer_width dm\<rparr>"

definition c_size_t :: "data_model \<Rightarrow> c_type" where
  "c_size_t dm = \<lparr>c_size = pointer_width dm, c_align = pointer_width dm\<rparr>"

definition IoVec_type :: "data_model \<Rightarrow> c_type" where
  "IoVec_type dm = c_struct [c_void_p dm, c_size_t dm]"

definition NsmMessage_type :: "data_model \<Rightarrow> c_type" where
  "NsmMessage_type dm = c_struct [IoVec_type dm, IoVec_type dm]"

definition sizeof :: "c_type \<Rightarrow> nat" where
  "sizeof t = c_size t"

section \<open>ioctl\_opt\<close>

text \<open>
  Modelled from the spec: \<^verbatim>\<open>IOC\<close>, \<^verbatim>\<open>IOC_READ\<close> and \<^verbatim>\<open>IOC_WRITE\<close> belong to the
  third-party package ioctl\_opt, which the module only imports. The spec (4.3, 6) names
  the four inputs of the control-operation code (direction, magic, number, structure size)
  and calls the result a 32-bit composite. The bit positions are those of Linux's generic
  \<^verbatim>\<open>_IOC\<close> macro, which the package implements: number in bits 0-7, magic in bits 8-15,
  size in bits 16-29, direction in bits 30-31; each input is asserted to fit its field.
\<close>

definition IOC_NRBITS :: nat where "IOC_NRBITS = 8"
definition IOC_TYPEBITS :: nat where "IOC_TYPEBITS = 8"
definition IOC_SIZEBITS :: nat where "IOC_SIZEBITS = 14"
definition IOC_DIRBITS :: nat where "IOC_DIRBITS = 2"

definition IOC_NRSHIFT :: nat where "IOC_NRSHIFT = 0"
definition IOC_TYPESHIFT :: nat where "IOC_TYPESHIFT = IOC_NRSHIFT + IOC_NRBITS"
definition IOC_SIZESHIFT :: nat where "IOC_SIZESHIFT = IOC_TYPESHIFT + IOC_TYPEBITS"
definition IOC_DIRSHIFT :: nat where "IOC_DIRSHIFT = IOC_SIZESHIFT + IOC_SIZEBITS"

definition IOC_WRITE :: nat where "IOC_WRITE = 1"
definition IOC_READ :: nat where "IOC_READ = 2"

definition IOC :: "nat \<Rightarrow> nat \<Rightarrow> nat \<Rightarrow> nat \<Rightarrow> error + nat" where
  "IOC dir type nr size' =
     (if dir > 2 ^ IOC_DIRBITS - 1 then Inl AssertionError
      else if type > 2 ^ IOC_TYPEBITS - 1 then Inl AssertionError
      else if nr > 2 ^ IOC_NRBITS - 1 then Inl AssertionError
      else if size' > 2 ^ IOC_SIZEBITS - 1 then Inl AssertionError
      else Inr (push_bit IOC_DIRSHIFT dir OR push_bit IOC_TYPESHIFT type
                OR push_bit IOC_NRSHIFT nr OR push_bit IOC_SIZESHIFT size'))"

section \<open>The world a call runs in\<close>

text \<open>
  What a call can change: raw memory, the allocator's next free address, and the device
  (seen through the list of ioctl calls issued so far, each with the operation code, the
  message and the memory as they were handed to the kernel).
\<close>

record world =
  memory :: memory
  next_free :: nat
  ioctl_calls :: "(nat \<times> NsmMessage \<times> memory) list"

text \<open>
  An action runs in a world and ends with an exception (\<open>Inl\<close>) or a value (\<open>Inr\<close>),
  and the world it leaves. \<open>and_then\<close> is sequencing: an exception of the first action
  ends the whole.
\<close>

type_synonym 'a action = "world \<Rightarrow> (error + 'a) \<times> world"

definition returns :: "'a \<Rightarrow> 'a action" where
  "returns x w = (Inr x, w)"

definition raise :: "error \<Rightarrow> 'a action" where
  "raise e w = (Inl e, w)"

definition lift :: "error + 'a \<Rightarrow> 'a action" where
  "lift r w = (r, w)"

definition and_then :: "'a action \<Rightarrow> ('a \<Rightarrow> 'b action) \<Rightarrow> 'b action" where
  "and_then m f w = (case m w of (Inl e, w') \<Rightarrow> (Inl e, w') | (Inr x, w') \<Rightarrow> f x w')"

text \<open>
  The external collaborators of the module: the payload codec (\<^verbatim>\<open>cbor2.dumps\<close> and
  \<^verbatim>\<open>cbor2.loads\<close>; decoding may fail) and the platform's data model.
\<close>

record runtime =
  cbor2_dumps :: "pyval \<Rightarrow> byte list"
  cbor2_loads :: "byte list \<Rightarrow> error + pyval"
  platform :: data_model

text \<open>
  An open file handle is modelled by the device behind it: what the ioctl system call
  does with an operation code and a message in a memory. It fails with an error, or
  returns the message and the memory as the kernel left them.
\<close>

type_synonym file_handle = "nat \<Rightarrow> NsmMessage \<Rightarrow> memory \<Rightarrow> error + (NsmMessage \<times> memory)"

text \<open>
  A ctypes array object: the address of its memory block and its number of one-byte
  elements (what \<^verbatim>\<open>len\<close> returns). The allocator hands out consecutive blocks, so
  every block is disjoint from the earlier ones.
\<close>

record c_buffer =
  buf_addr :: nat
  buf_len :: nat

text \<open>
  \<^verbatim>\<open>ctypes.create_string_buffer(init, size)\<close>: a zeroed block of \<open>size\<close> bytes with
  \<open>init\<close> copied to its start; \<^verbatim>\<open>ValueError\<close> when \<open>init\<close> is longer than \<open>size\<close>.
\<close>

definition create_string_buffer :: "byte list \<Rightarrow> nat \<Rightarrow> c_buffer action" where
  "create_string_buffer init sz w =
     (if length init > sz then (Inl (ValueError ''byte string too long''), w)
      else
        let a = next_free w in
        (Inr \<lparr>buf_addr = a, buf_len = sz\<rparr>,
         w\<lparr>memory := write_bytes (zero_fill (memory w) a sz) a init, next_free := a + sz\<rparr>))"

text \<open>\<^verbatim>\<open>(n * ctypes.c_uint8)()\<close>: a zeroed block of \<open>n\<close> bytes.\<close>

definition c_uint8_array :: "nat \<Rightarrow> c_buffer action" where
  "c_uint8_array n w =
     (let a = next_free w in
      (Inr \<lparr>buf_addr = a, buf_len = n\<rparr>,
       w\<lparr>memory := zero_fill (memory w) a n, next_free := a + n\<rparr>))"

text \<open>
  \<^verbatim>\<open>fcntl.ioctl(file_handle, operation, nsm_message)\<close>: one system call. The structure is
  passed by address and holds what the kernel left in it when the call returns.
\<close>

definition fcntl_ioctl :: "file_handle \<Rightarrow> nat \<Rightarrow> NsmMessage \<Rightarrow> NsmMessage action" where
  "fcntl_ioctl file_handle operation nsm_message w =
     (let w1 = w\<lparr>ioctl_calls := ioctl_calls w @ [(operation, nsm_message, memory w)]\<rparr> in
      case file_handle operation nsm_message (memory w) of
        Inl e \<Rightarrow> (Inl e, w1)
      | Inr (nsm_message', memory') \<Rightarrow> (Inr nsm_message', w1\<lparr>memory := memory'\<rparr>))"

section \<open>The module: constants and helpers\<close>

definition NSM_IOCTL_MAGIC :: nat where "NSM_IOCTL_MAGIC = 0x0A"
definition NSM_IOCTL_NUMBER :: nat where "NSM_IOCTL_NUMBER = 0x00"
definition NSM_REQUEST_MAX_SIZE :: nat where "NSM_REQUEST_MAX_SIZE = 0x1000"
definition NSM_RESPONSE_MAX_SIZE :: nat where "NSM_RESPONSE_MAX_SIZE = 0x3000"

text \<open>
  \<^verbatim>\<open>_decode_response\<close>: copy \<open>iov_len\<close> bytes from the address \<open>iov_base\<close> of the response
  descriptor into a fresh bytearray and decode it.
\<close>

definition decode_response :: "runtime \<Rightarrow> NsmMessage \<Rightarrow> pyval action" where
  "decode_response rt nsm_message w =
     (case read_bytes (memory w) (iov_base (response nsm_message))
             (iov_len (response nsm_message)) of
        None \<Rightarrow> (Inl Fault, w)
      | Some cbor_data \<Rightarrow> (cbor2_loads rt cbor_data, w))"

text \<open>\<^verbatim>\<open>_execute_ioctl\<close>: compute the operation code, then make the call.\<close>

definition nsm_operation :: "runtime \<Rightarrow> error + nat" where
  "nsm_operation rt =
     IOC (IOC_READ OR IOC_WRITE) NSM_IOCTL_MAGIC NSM_IOCTL_NUMBER
       (sizeof (NsmMessage_type (platform rt)))"

definition execute_ioctl :: "runtime \<Rightarrow> file_handle \<Rightarrow> NsmMessage \<Rightarrow> NsmMessage action" where
  "execute_ioctl rt file_handle nsm_message =
     and_then (lift (nsm_operation rt))
       (\<lambda>operation. fcntl_ioctl file_handle operation nsm_message)"

text \<open>\<^verbatim>\<open>_prepare_nsm_message_iovecs\<close>\<close>

definition prepare_nsm_message_iovecs ::
    "NsmMessage \<Rightarrow> c_buffer \<Rightarrow> c_buffer \<Rightarrow> NsmMessage action" where
  "prepare_nsm_message_iovecs nsm_message request_buffer response_buffer =
     (if buf_len request_buffer > NSM_REQUEST_MAX_SIZE
      then raise (ValueError ''Request too large.'')
      else
        let request_buffer_pointer = buf_addr request_buffer;
            response_buffer_pointer = buf_addr response_buffer
        in returns (nsm_message
             \<lparr>request := \<lparr>iov_base = request_buffer_pointer, iov_len = buf_len request_buffer\<rparr>,
              response := \<lparr>iov_base = response_buffer_pointer, iov_len = buf_len response_buffer\<rparr>\<rparr>))"

text \<open>
  \<^verbatim>\<open>raise IoctlError(decoded_response.get('Error'))\<close>: the argument is evaluated first, so
  a response without a \<^verbatim>\<open>get\<close> attribute raises \<^verbatim>\<open>AttributeError\<close> instead.
\<close>

definition raise_IoctlError :: "pyval \<Rightarrow> 'a action" where
  "raise_IoctlError decoded_response =
     and_then (lift (py_get decoded_response ''Error'')) (\<lambda>e. raise (IoctlError e))"

section \<open>The module: the commands\<close>

text \<open>
  Each command repeats the same steps, as the source does: encode, create the two
  buffers, fill in the message, call the kernel, decode, classify. The arguments have the
  types of the source's annotations: \<^verbatim>\<open>int\<close> is \<open>int\<close>, \<^verbatim>\<open>bytes\<close> is a list of bytes, and
  an argument whose default is \<^verbatim>\<open>None\<close> is an option.
\<close>

definition lock_pcr :: "runtime \<Rightarrow> file_handle \<Rightarrow> int \<Rightarrow> bool action" where
  "lock_pcr rt file_handle index =
     (let nsm_key = ''LockPCR'';
          request_data = cbor2_dumps rt (PDict [(PStr nsm_key, PDict [(PStr ''index'', PInt index)])])
      in
      and_then (create_string_buffer request_data (length request_data)) (\<lambda>request_buffer.
      and_then (c_uint8_array NSM_RESPONSE_MAX_SIZE) (\<lambda>response_buffer.
      and_then (prepare_nsm_message_iovecs NsmMessage_new request_buffer response_buffer)
        (\<lambda>nsm_message.
      and_then (execute_ioctl rt file_handle nsm_message) (\<lambda>nsm_message.
      and_then (decode_response rt nsm_message) (\<lambda>decoded_response.
        if isinstance_dict decoded_response
        then and_then (lift (str_in ''Error'' decoded_response)) (\<lambda>has_error.
               if has_error then raise_IoctlError decoded_response else returns True)
        else returns True))))))"

definition lock_pcrs :: "runtime \<Rightarrow> file_handle \<Rightarrow> int \<Rightarrow> bool action" where
  "lock_pcrs rt file_handle lock_range =
     (let nsm_key = ''LockPCRs'';
          request_data =
            cbor2_dumps rt (PDict [(PStr nsm_key, PDict [(PStr ''range'', PInt lock_range)])])
      in
      and_then (create_string_buffer request_data (length request_data)) (\<lambda>request_buffer.
      and_then (c_uint8_array NSM_RESPONSE_MAX_SIZE) (\<lambda>response_buffer.
      and_then (prepare_nsm_message_iovecs NsmMessage_new request_buffer response_buffer)
        (\<lambda>nsm_message.
      and_then (execute_ioctl rt file_handle nsm_message) (\<lambda>nsm_message.
      and_then (decode_response rt nsm_message) (\<lambda>decoded_response.
        if isinstance_dict decoded_response
        then and_then (lift (str_in ''Error'' decoded_response)) (\<lambda>has_error.
               if has_error then raise_IoctlError decoded_response else returns True)
        else returns True))))))"

definition describe_pcr :: "runtime \<Rightarrow> file_handle \<Rightarrow> int \<Rightarrow> pyval action" where
  "describe_pcr rt file_handle index =
     (let nsm_key = ''DescribePCR'';
          request_data = cbor2_dumps rt (PDict [(PStr nsm_key, PDict [(PStr ''index'', PInt index)])])
      in
      and_then (create_string_buffer request_data (length request_data)) (\<lambda>request_buffer.
      and_then (c_uint8_array NSM_RESPONSE_MAX_SIZE) (\<lambda>response_buffer.
      and_then (prepare_nsm_message_iovecs NsmMessage_new request_buffer response_buffer)
        (\<lambda>nsm_message.
      and_then (execute_ioctl rt file_handle nsm_message) (\<lambda>nsm_message.
      and_then (decode_response rt nsm_message) (\<lambda>decoded_response.
        and_then (lift (str_in nsm_key decoded_response)) (\<lambda>has_key.
          if \<not> has_key then raise_IoctlError decoded_response
          else lift (py_get decoded_response nsm_key))))))))"

text \<open>\<^verbatim>\<open>None\<close> or a bytes object, as the optional arguments of \<^verbatim>\<open>get_attestation_doc\<close> are.\<close>

fun optional_bytes :: "byte list option \<Rightarrow> pyval" where
  "optional_bytes None = PNone"
| "optional_bytes (Some bs) = PBytes bs"

definition get_attestation_doc ::
    "runtime \<Rightarrow> file_handle \<Rightarrow> byte list option \<Rightarrow> byte list option \<Rightarrow> byte list option
     \<Rightarrow> pyval action" where
  "get_attestation_doc rt file_handle user_data nonce public_key =
     (let nsm_key = ''Attestation'';
          request_data = cbor2_dumps rt (PDict [(PStr nsm_key, PDict [
            (PStr ''user_data'', optional_bytes user_data),
            (PStr ''nonce'', optional_bytes nonce),
            (PStr ''public_key'', optional_bytes public_key)])])
      in
      and_then (create_string_buffer request_data (length request_data)) (\<lambda>request_buffer.
      and_then (c_uint8_array NSM_RESPONSE_MAX_SIZE) (\<lambda>response_buffer.
      and_then (prepare_nsm_message_iovecs NsmMessage_new request_buffer response_buffer)
        (\<lambda>nsm_message.
      and_then (execute_ioctl rt file_handle nsm_message) (\<lambda>nsm_message.
      and_then (decode_response rt nsm_message) (\<lambda>decoded_response.
        and_then (lift (str_in nsm_key decoded_response)) (\<lambda>has_key.
          if \<not> has_key then raise_IoctlError decoded_response
          else lift (py_get decoded_response nsm_key))))))))"

definition extend_pcr :: "runtime \<Rightarrow> file_handle \<Rightarrow> int \<Rightarrow> byte list \<Rightarrow> pyval action" where
  "extend_pcr rt file_handle index data =
     (let nsm_key = ''ExtendPCR'';
          request_data = cbor2_dumps rt (PDict [(PStr nsm_key, PDict [
            (PStr ''index'', PInt index), (PStr ''data'', PBytes data)])])
      in
      and_then (create_string_buffer request_data (length request_data)) (\<lambda>request_buffer.
      and_then (c_uint8_array NSM_RESPONSE_MAX_SIZE) (\<lambda>response_buffer.
      and_then (prepare_nsm_message_iovecs NsmMessage_new request_buffer response_buffer)
        (\<lambda>nsm_message.
      and_then (execute_ioctl rt file_handle nsm_message) (\<lambda>nsm_message.
      and_then (decode_response rt nsm_message) (\<lambda>decoded_response.
        and_then (lift (str_in nsm_key decoded_response)) (\<lambda>has_key.
          if \<not> has_key then raise_IoctlError decoded_response
          else lift (py_get decoded_response nsm_key))))))))"

definition describe_nsm :: "runtime \<Rightarrow> file_handle \<Rightarrow> pyval action" where
  "describe_nsm rt file_handle =
     (let nsm_key = ''DescribeNSM'';
          request_data = cbor2_dumps rt (PStr nsm_key)
      in
      and_then (create_string_buffer request_data (length request_data)) (\<lambda>request_buffer.
      and_then (c_uint8_array NSM_RESPONSE_MAX_SIZE) (\<lambda>response_buffer.
      and_then (prepare_nsm_message_iovecs NsmMessage_new request_buffer response_buffer)
        (\<lambda>nsm_message.
      and_then (execute_ioctl rt file_handle nsm_message) (\<lambda>nsm_message.
      and_then (decode_response rt nsm_message) (\<lambda>decoded_response.
        and_then (lift (str_in nsm_key decoded_response)) (\<lambda>has_key.
          if \<not> has_key then raise_IoctlError decoded_response
          else lift (py_get decoded_response nsm_key))))))))"

text \<open>
  \<^verbatim>\<open>get_random(file_handle, length=32)\<close>: the optional argument is \<open>None\<close> when the caller
  leaves it out.
\<close>

definition get_random :: "runtime \<Rightarrow> file_handle \<Rightarrow> int option \<Rightarrow> pyval action" where
  "get_random rt file_handle length_arg =
     (let length' = (case length_arg of None \<Rightarrow> 32 | Some n \<Rightarrow> n) in
      if length' < 1 \<or> length' > 256
      then raise (ValueError ''GetRandom supports length between 1 and 256 inclusive.'')
      else
      let nsm_key = ''GetRandom'';
          request_data = cbor2_dumps rt (PStr nsm_key)
      in
      and_then (create_string_buffer request_data (length request_data)) (\<lambda>request_buffer.
      and_then (c_uint8_array NSM_RESPONSE_MAX_SIZE) (\<lambda>response_buffer.
      and_then (prepare_nsm_message_iovecs NsmMessage_new request_buffer response_buffer)
        (\<lambda>nsm_message.
      and_then (execute_ioctl rt file_handle nsm_message) (\<lambda>nsm_message.
      and_then (decode_response rt nsm_message) (\<lambda>decoded_response.
        and_then (lift (py_get decoded_response nsm_key)) (\<lambda>inner.
        and_then (lift (py_get inner ''random'')) (\<lambda>random_bytes.
        and_then (lift (str_in nsm_key decoded_response)) (\<lambda>has_key.
          if \<not> has_key then raise_IoctlError decoded_response
          else lift (py_slice_to random_bytes length'))))))))))"

section \<open>Vocabulary for the statements\<close>

text \<open>
  The steps that every command repeats between encoding its request and classifying the
  decoded response, as one action of the encoded request.
\<close>

definition exchange :: "runtime \<Rightarrow> file_handle \<Rightarrow> byte list \<Rightarrow> pyval action" where
  "exchange rt file_handle request_data =
     and_then (create_string_buffer request_data (length request_data)) (\<lambda>request_buffer.
     and_then (c_uint8_array NSM_RESPONSE_MAX_SIZE) (\<lambda>response_buffer.
     and_then (prepare_nsm_message_iovecs NsmMessage_new request_buffer response_buffer)
       (\<lambda>nsm_message.
     and_then (execute_ioctl rt file_handle nsm_message) (\<lambda>nsm_message.
     decode_response rt nsm_message))))"

text \<open>
  The message and the memory that reach the kernel when a request of at most
  \<open>NSM_REQUEST_MAX_SIZE\<close> bytes is exchanged in world \<open>w\<close>: the request buffer is the
  next free block, the response buffer the block after it.
\<close>

definition submitted_message :: "world \<Rightarrow> byte list \<Rightarrow> NsmMessage" where
  "submitted_message w request_data =
     \<lparr>request = \<lparr>iov_base = next_free w, iov_len = length request_data\<rparr>,
      response = \<lparr>iov_base = next_free w + length request_data,
                  iov_len = NSM_RESPONSE_MAX_SIZE\<rparr>\<rparr>"

definition submitted_memory :: "world \<Rightarrow> byte list \<Rightarrow> memory" where
  "submitted_memory w request_data =
     zero_fill
       (write_bytes (zero_fill (memory w) (next_free w) (length request_data))
          (next_free w) request_data)
       (next_free w + length request_data) NSM_RESPONSE_MAX_SIZE"

text \<open>
  The bytes of the request region that an ioctl call hands to the kernel, and the request
  regions of the calls issued between a world and a later one.
\<close>

definition request_region :: "nat \<times> NsmMessage \<times> memory \<Rightarrow> byte list option" where
  "request_region c =
     (case c of (operation, nsm_message, mem) \<Rightarrow>
        read_bytes mem (iov_base (request nsm_message)) (iov_len (request nsm_message)))"

definition sent :: "world \<Rightarrow> world \<Rightarrow> byte list option list" where
  "sent w w' = map request_region (drop (length (ioctl_calls w)) (ioctl_calls w'))"

text \<open>
  The seven public commands with their arguments, and \<open>call\<close>, which runs the function
  of a command; the boolean of the two lock commands is returned as a value tree.
\<close>

datatype command =
    LockPCR int
  | LockPCRs int
  | DescribePCR int
  | Attestation "byte list option" "byte list option" "byte list option"
  | ExtendPCR int "byte list"
  | DescribeNSM
  | GetRandom "int option"

fun call :: "runtime \<Rightarrow> file_handle \<Rightarrow> command \<Rightarrow> pyval action" where
  "call rt fh (LockPCR index) = and_then (lock_pcr rt fh index) (\<lambda>b. returns (PBool b))"
| "call rt fh (LockPCRs lock_range) =
     and_then (lock_pcrs rt fh lock_range) (\<lambda>b. returns (PBool b))"
| "call rt fh (DescribePCR index) = describe_pcr rt fh index"
| "call rt fh (Attestation user_data nonce public_key) =
     get_attestation_doc rt fh user_data nonce public_key"
| "call rt fh (ExtendPCR index data) = extend_pcr rt fh index data"
| "call rt fh DescribeNSM = describe_nsm rt fh"
| "call rt fh (GetRandom length_arg) = get_random rt fh length_arg"

text \<open>The \<^verbatim>\<open>nsm_key\<close> of each command.\<close>

fun command_tag :: "command \<Rightarrow> string" where
  "command_tag (LockPCR _) = ''LockPCR''"
| "command_tag (LockPCRs _) = ''LockPCRs''"
| "command_tag (DescribePCR _) = ''DescribePCR''"
| "command_tag (Attestation _ _ _) = ''Attestation''"
| "command_tag (ExtendPCR _ _) = ''ExtendPCR''"
| "command_tag DescribeNSM = ''DescribeNSM''"
| "command_tag (GetRandom _) = ''GetRandom''"

text \<open>The two commands that return a boolean, and the four that return the value under their tag.\<close>

fun is_lock :: "command \<Rightarrow> bool" where
  "is_lock (LockPCR _) = True"
| "is_lock (LockPCRs _) = True"
| "is_lock _ = False"

fun returns_tag :: "command \<Rightarrow> bool" where
  "returns_tag (DescribePCR _) = True"
| "returns_tag (Attestation _ _ _) = True"
| "returns_tag (ExtendPCR _ _) = True"
| "returns_tag DescribeNSM = True"
| "returns_tag _ = False"

text \<open>
  The value tree of each command's request, laid out as the table of section 6 of the
  specification gives it; an optional field that the caller omits is present as null.
  That the functions of the module encode exactly these trees is proved below
  (\<open>call_exchange\<close>).
\<close>

fun nullable :: "byte list option \<Rightarrow> pyval" where
  "nullable None = PNone"
| "nullable (Some bs) = PBytes bs"

fun table_request :: "command \<Rightarrow> pyval" where
  "table_request (LockPCR index) =
     PDict [(PStr ''LockPCR'', PDict [(PStr ''index'', PInt index)])]"
| "table_request (LockPCRs lock_range) =
     PDict [(PStr ''LockPCRs'', PDict [(PStr ''range'', PInt lock_range)])]"
| "table_request (DescribePCR index) =
     PDict [(PStr ''DescribePCR'', PDict [(PStr ''index'', PInt index)])]"
| "table_request (Attestation user_data nonce public_key) =
     PDict [(PStr ''Attestation'', PDict [
       (PStr ''user_data'', nullable user_data),
       (PStr ''nonce'', nullable nonce),
       (PStr ''public_key'', nullable public_key)])]"
| "table_request (ExtendPCR index data) =
     PDict [(PStr ''ExtendPCR'', PDict [(PStr ''index'', PInt index), (PStr ''data'', PBytes data)])]"
| "table_request DescribeNSM = PStr ''DescribeNSM''"
| "table_request (GetRandom length_arg) = PStr ''GetRandom''"

text \<open>The calls that pass the argument check of \<^verbatim>\<open>get_random\<close>; the default length is 32.\<close>

fun accepted :: "command \<Rightarrow> bool" where
  "accepted (GetRandom None) = True"
| "accepted (GetRandom (Some n)) = (1 \<le> n \<and> n \<le> 256)"
| "accepted _ = True"

text \<open>The value under a tag of a decoded response; \<open>None\<close> unless it is a dict with the tag.\<close>

definition dict_lookup :: "pyval \<Rightarrow> string \<Rightarrow> pyval option" where
  "dict_lookup r key = (case r of PDict items \<Rightarrow> map_of items (PStr key) | _ \<Rightarrow> None)"

text \<open>
  A simulated environment for concrete runs: a codec that encodes with the function
  \<open>enc\<close> and decodes a response by looking its bytes up in a table; a device that
  writes \<open>out\<close> followed by \<open>junk\<close> to the response buffer and sets the descriptor's
  length to the length of \<open>out\<close>; a device whose system call fails; a world with empty
  memory.
\<close>

definition sim_loads :: "(byte list \<times> pyval) list \<Rightarrow> byte list \<Rightarrow> error + pyval" where
  "sim_loads table bs = (case map_of table bs of None \<Rightarrow> Inl CBORDecodeError | Some v \<Rightarrow> Inr v)"

definition sim_runtime :: "(pyval \<Rightarrow> byte list) \<Rightarrow> (byte list \<times> pyval) list \<Rightarrow> runtime" where
  "sim_runtime enc table =
     \<lparr>cbor2_dumps = enc, cbor2_loads = sim_loads table, platform = LP64\<rparr>"

definition sim_device :: "byte list \<Rightarrow> byte list \<Rightarrow> file_handle" where
  "sim_device out junk operation nsm_message mem =
     Inr (nsm_message\<lparr>response := (response nsm_message)\<lparr>iov_len := length out\<rparr>\<rparr>,
          write_bytes mem (iov_base (response nsm_message)) (out @ junk))"

definition failing_device :: "nat \<Rightarrow> file_handle" where
  "failing_device errno operation nsm_message mem = Inl (OSError errno)"

definition boot :: world where
  "boot = \<lparr>memory = (\<lambda>a. None), next_free = 4096, ioctl_calls = []\<rparr>"

text \<open>
  The last statements of the commands, as actions of the decoded response: of
  \<^verbatim>\<open>lock_pcr\<close> and \<^verbatim>\<open>lock_pcrs\<close>, of the four commands that return the value under their
  tag, and of \<^verbatim>\<open>get_random\<close>.
\<close>

definition lock_tail :: "pyval \<Rightarrow> bool action" where
  "lock_tail decoded_response =
     (if isinstance_dict decoded_response
      then and_then (lift (str_in ''Error'' decoded_response)) (\<lambda>has_error.
             if has_error then raise_IoctlError decoded_response else returns True)
      else returns True)"

definition tag_tail :: "string \<Rightarrow> pyval \<Rightarrow> pyval action" where
  "tag_tail nsm_key decoded_response =
     and_then (lift (str_in nsm_key decoded_response)) (\<lambda>has_key.
       if \<not> has_key then raise_IoctlError decoded_response
       else lift (py_get decoded_response nsm_key))"

definition random_tail :: "int \<Rightarrow> pyval \<Rightarrow> pyval action" where
  "random_tail length' decoded_response =
     and_then (lift (py_get decoded_response ''GetRandom'')) (\<lambda>inner.
     and_then (lift (py_get inner ''random'')) (\<lambda>random_bytes.
     and_then (lift (str_in ''GetRandom'' decoded_response)) (\<lambda>has_key.
       if \<not> has_key then raise_IoctlError decoded_response
       else lift (py_slice_to random_bytes length'))))"

fun requested_length :: "int option \<Rightarrow> int" where
  "requested_length None = 32"
| "requested_length (Some n) = n"

fun classify :: "command \<Rightarrow> pyval \<Rightarrow> pyval action" where
  "classify (LockPCR _) = (\<lambda>r. and_then (lock_tail r) (\<lambda>b. returns (PBool b)))"
| "classify (LockPCRs _) = (\<lambda>r. and_then (lock_tail r) (\<lambda>b. returns (PBool b)))"
| "classify (GetRandom length_arg) = random_tail (requested_length length_arg)"
| "classify cmd = tag_tail (command_tag cmd)"

text \<open>
  An action sends a value tree when, provided the tree's encoding fits the request limit,
  it issues exactly one ioctl call and the request region of that call holds exactly the
  encoding.
\<close>

definition sends :: "runtime \<Rightarrow> 'a action \<Rightarrow> world \<Rightarrow> pyval \<Rightarrow> bool" where
  "sends rt act w tree =
     (length (cbor2_dumps rt tree) \<le> NSM_REQUEST_MAX_SIZE \<longrightarrow>
      sent w (snd (act w)) = [Some (cbor2_dumps rt tree)])"

text \<open>
  A toy encoder for concrete runs: the first byte of the CBOR encoding of a short str
  or a small dict (major type and length), and the byte of null for everything else.
\<close>

definition toy_dumps :: "pyval \<Rightarrow> byte list" where
  "toy_dumps v =
     (case v of
        PStr s \<Rightarrow> [0x60 + of_nat (length s)]
      | PDict items \<Rightarrow> [0xA0 + of_nat (length items)]
      | _ \<Rightarrow> [0xF6])"

text \<open>
  The exchange of the encoding of a value tree in world \<open>w\<close> reaches the decoder and
  ends with the decoded response \<open>r\<close>.
\<close>

definition decodes :: "runtime \<Rightarrow> file_handle \<Rightarrow> pyval \<Rightarrow> world \<Rightarrow> pyval \<Rightarrow> bool" where
  "decodes rt fh tree w r = (fst (exchange rt fh (cbor2_dumps rt tree) w) = Inr r)"

section \<open>Basic facts\<close>

lemma and_then_assoc: "and_then (and_then m f) g = and_then m (\<lambda>x. and_then (f x) g)"
  by (rule ext) (simp add: and_then_def split: prod.splits sum.splits)

lemma those_map_Some: "those (map Some xs) = Some xs"
  by (induction xs) simp_all

lemma those_length: "those xs = Some ys \<Longrightarrow> length ys = length xs"
  by (induction xs arbitrary: ys) (auto split: option.splits)

lemma read_bytes_length: "read_bytes m a n = Some bs \<Longrightarrow> length bs = n"
  by (auto simp: read_bytes_def dest: those_length)

lemma read_bytes_eqI:
  assumes "\<forall>i < length bs. m (a + i) = Some (bs ! i)"
  shows "read_bytes m a (length bs) = Some bs"
proof -
  have "map m [a ..< a + length bs] = map Some bs"
    using assms by (intro nth_equalityI) simp_all
  then show ?thesis by (simp add: read_bytes_def those_map_Some)
qed

lemma read_bytes_cong:
  assumes "\<forall>x. a \<le> x \<and> x < a + n \<longrightarrow> m1 x = m2 x"
  shows "read_bytes m1 a n = read_bytes m2 a n"
proof -
  have "map m1 [a ..< a + n] = map m2 [a ..< a + n]"
    by (rule map_cong) (use assms in auto)
  then show ?thesis by (simp only: read_bytes_def)
qed

lemma sizeof_NsmMessage: "sizeof (NsmMessage_type dm) = 4 * pointer_width dm"
  by (cases dm) (simp_all add: sizeof_def NsmMessage_type_def IoVec_type_def c_struct_def c_void_p_def c_size_t_def align_up_def)

lemma IOC_shifts:
  "IOC_NRSHIFT = 0" "IOC_TYPESHIFT = 8" "IOC_SIZESHIFT = 16" "IOC_DIRSHIFT = 30"
  by (simp_all add: IOC_DIRSHIFT_def IOC_SIZESHIFT_def IOC_TYPESHIFT_def IOC_NRSHIFT_def
      IOC_NRBITS_def IOC_TYPEBITS_def IOC_SIZEBITS_def)

lemma IOC_bits:
  "IOC_NRBITS = 8" "IOC_TYPEBITS = 8" "IOC_SIZEBITS = 14" "IOC_DIRBITS = 2"
  by (simp_all add: IOC_NRBITS_def IOC_TYPEBITS_def IOC_SIZEBITS_def IOC_DIRBITS_def)

lemma nsm_operation_value:
  "nsm_operation rt = Inr (case platform rt of LP64 \<Rightarrow> 3223325184 | ILP32 \<Rightarrow> 3222276608)"
  by (cases "platform rt")
    (simp_all add: nsm_operation_def sizeof_NsmMessage IOC_def IOC_READ_def IOC_WRITE_def
      NSM_IOCTL_MAGIC_def NSM_IOCTL_NUMBER_def IOC_shifts IOC_bits push_bit_eq_mult)


lemma read_submitted_request:
  "read_bytes (submitted_memory w rd) (next_free w) (length rd) = Some rd"
  by (rule read_bytes_eqI) (simp add: submitted_memory_def write_bytes_def zero_fill_def)

lemma exchange_too_large:
  assumes "length rd > NSM_REQUEST_MAX_SIZE"
  shows "exchange rt fh rd w =
    (Inl (ValueError ''Request too large.''),
     w\<lparr>memory := submitted_memory w rd,
       next_free := next_free w + length rd + NSM_RESPONSE_MAX_SIZE\<rparr>)"
  using assms
  by (simp add: exchange_def and_then_def create_string_buffer_def c_uint8_array_def
      prepare_nsm_message_iovecs_def raise_def submitted_memory_def Let_def)

lemma exchange_submits:
  assumes "length rd \<le> NSM_REQUEST_MAX_SIZE" and "nsm_operation rt = Inr operation"
  shows "exchange rt fh rd w =
    (let w1 = w\<lparr>memory := submitted_memory w rd,
                next_free := next_free w + length rd + NSM_RESPONSE_MAX_SIZE,
                ioctl_calls := ioctl_calls w @
                  [(operation, submitted_message w rd, submitted_memory w rd)]\<rparr>
     in case fh operation (submitted_message w rd) (submitted_memory w rd) of
          Inl e \<Rightarrow> (Inl e, w1)
        | Inr (nsm_message', memory') \<Rightarrow>
            decode_response rt nsm_message' (w1\<lparr>memory := memory'\<rparr>))"
  using assms
  by (simp add: exchange_def and_then_def create_string_buffer_def c_uint8_array_def
      prepare_nsm_message_iovecs_def returns_def execute_ioctl_def lift_def fcntl_ioctl_def
      submitted_memory_def submitted_message_def NsmMessage_new_def Let_def
      split: sum.splits prod.splits)


lemma lock_pcr_exchange:
  "lock_pcr rt fh index =
     and_then (exchange rt fh (cbor2_dumps rt (table_request (LockPCR index)))) lock_tail"
  by (simp add: lock_pcr_def exchange_def and_then_assoc lock_tail_def[abs_def] Let_def)

lemma lock_pcrs_exchange:
  "lock_pcrs rt fh lock_range =
     and_then (exchange rt fh (cbor2_dumps rt (table_request (LockPCRs lock_range)))) lock_tail"
  by (simp add: lock_pcrs_def exchange_def and_then_assoc lock_tail_def[abs_def] Let_def)

lemma describe_pcr_exchange:
  "describe_pcr rt fh index =
     and_then (exchange rt fh (cbor2_dumps rt (table_request (DescribePCR index))))
       (tag_tail ''DescribePCR'')"
  by (simp add: describe_pcr_def exchange_def and_then_assoc tag_tail_def[abs_def] Let_def)

lemma get_attestation_doc_exchange:
  "get_attestation_doc rt fh user_data nonce public_key =
     and_then
       (exchange rt fh (cbor2_dumps rt (table_request (Attestation user_data nonce public_key))))
       (tag_tail ''Attestation'')"
proof -
  have "optional_bytes x = nullable x" for x by (cases x) simp_all
  then show ?thesis
    by (simp add: get_attestation_doc_def exchange_def and_then_assoc tag_tail_def[abs_def] Let_def)
qed

lemma extend_pcr_exchange:
  "extend_pcr rt fh index data =
     and_then (exchange rt fh (cbor2_dumps rt (table_request (ExtendPCR index data))))
       (tag_tail ''ExtendPCR'')"
  by (simp add: extend_pcr_def exchange_def and_then_assoc tag_tail_def[abs_def] Let_def)

lemma describe_nsm_exchange:
  "describe_nsm rt fh =
     and_then (exchange rt fh (cbor2_dumps rt (table_request DescribeNSM))) (tag_tail ''DescribeNSM'')"
  by (simp add: describe_nsm_def exchange_def and_then_assoc tag_tail_def[abs_def] Let_def)

lemma get_random_exchange:
  "get_random rt fh length_arg =
     (if requested_length length_arg < 1 \<or> requested_length length_arg > 256
      then raise (ValueError ''GetRandom supports length between 1 and 256 inclusive.'')
      else and_then (exchange rt fh (cbor2_dumps rt (table_request (GetRandom length_arg))))
             (random_tail (requested_length length_arg)))"
  by (cases length_arg)
    (simp_all add: get_random_def exchange_def and_then_assoc random_tail_def[abs_def] Let_def)

lemma call_exchange:
  "accepted cmd \<Longrightarrow>
   call rt fh cmd = and_then (exchange rt fh (cbor2_dumps rt (table_request cmd))) (classify cmd)"
proof (cases cmd)
  case (GetRandom length_arg)
  assume "accepted cmd"
  with GetRandom have "\<not> (requested_length length_arg < 1 \<or> requested_length length_arg > 256)"
    by (cases length_arg) auto
  with GetRandom show ?thesis by (simp add: get_random_exchange)
qed (simp_all add: lock_pcr_exchange lock_pcrs_exchange describe_pcr_exchange
      get_attestation_doc_exchange extend_pcr_exchange describe_nsm_exchange and_then_assoc)

lemma execute_ioctl_calls:
  "nsm_operation rt = Inr operation \<Longrightarrow>
   ioctl_calls (snd (execute_ioctl rt fh nsm_message w)) =
     ioctl_calls w @ [(operation, nsm_message, memory w)]"
  by (simp add: execute_ioctl_def and_then_def lift_def fcntl_ioctl_def Let_def
      split: sum.splits prod.splits)

lemma and_then_Inl: "fst (m w) = Inl e \<Longrightarrow> and_then m f w = (Inl e, snd (m w))"
  by (cases "m w") (simp add: and_then_def)

lemma and_then_Inr: "fst (m w) = Inr x \<Longrightarrow> and_then m f w = f x (snd (m w))"
  by (cases "m w") (simp add: and_then_def)

lemma lock_tail_eq:
  "lock_tail r w =
     ((case dict_lookup r ''Error'' of None \<Rightarrow> Inr True | Some v \<Rightarrow> Inl (IoctlError v)), w)"
  by (cases r)
    (auto simp: lock_tail_def dict_lookup_def and_then_def lift_def returns_def raise_def
      raise_IoctlError_def)

lemma tag_tail_present: "dict_lookup r k = Some v \<Longrightarrow> tag_tail k r w = (Inr v, w)"
  by (cases r)
    (auto simp: tag_tail_def dict_lookup_def and_then_def lift_def)

lemma tag_tail_missing:
  "isinstance_dict r \<Longrightarrow> dict_lookup r k = None \<Longrightarrow>
   tag_tail k r w =
     (Inl (IoctlError (case dict_lookup r ''Error'' of None \<Rightarrow> PNone | Some v \<Rightarrow> v)), w)"
  by (cases r)
    (auto simp: tag_tail_def dict_lookup_def and_then_def lift_def raise_def raise_IoctlError_def)

lemma tag_tail_absent: "dict_lookup r k = None \<Longrightarrow> \<exists>e. tag_tail k r w = (Inl e, w)"
  by (cases r)
    (auto simp: tag_tail_def dict_lookup_def and_then_def lift_def raise_def raise_IoctlError_def)

lemma random_tail_present:
  "dict_lookup r ''GetRandom'' = Some inner \<Longrightarrow> dict_lookup inner ''random'' = Some rb \<Longrightarrow>
   random_tail n r w = (py_slice_to rb n, w)"
  by (cases r; cases inner)
    (auto simp: random_tail_def dict_lookup_def and_then_def lift_def)

lemma random_tail_error_only:
  "isinstance_dict r \<Longrightarrow> dict_lookup r ''GetRandom'' = None \<Longrightarrow>
   random_tail n r w = (Inl AttributeError, w)"
  by (cases r)
    (auto simp: random_tail_def dict_lookup_def and_then_def lift_def)

lemma snd_lock_tail: "snd (lock_tail r w) = w"
  by (simp add: lock_tail_eq)

lemma snd_tag_tail: "snd (tag_tail k r w) = w"
  by (cases "str_in k r"; cases "py_get r ''Error''"; cases "py_get r k")
    (auto simp: tag_tail_def and_then_def lift_def raise_def raise_IoctlError_def)

lemma snd_random_tail: "snd (random_tail n r w) = w"
  by (auto simp: random_tail_def and_then_def lift_def raise_def raise_IoctlError_def
      split: sum.splits)

lemma snd_classify: "snd (classify cmd r w) = w"
  by (cases cmd)
    (simp_all add: snd_tag_tail snd_random_tail and_then_def lock_tail_eq returns_def
      split: option.splits)


lemma snd_decode_response: "snd (decode_response rt nsm_message w) = w"
  by (simp add: decode_response_def split: option.splits)

lemma exchange_calls:
  "ioctl_calls (snd (exchange rt fh rd w)) =
     (if length rd > NSM_REQUEST_MAX_SIZE then ioctl_calls w
      else ioctl_calls w @
        [(case platform rt of LP64 \<Rightarrow> 3223325184 | ILP32 \<Rightarrow> 3222276608,
          submitted_message w rd, submitted_memory w rd)])"
proof (cases "length rd > NSM_REQUEST_MAX_SIZE")
  case True
  then show ?thesis by (simp add: exchange_too_large)
next
  case False
  then have le: "length rd \<le> NSM_REQUEST_MAX_SIZE" by simp
  show ?thesis
    using False
    by (simp add: exchange_submits [OF le nsm_operation_value] snd_decode_response Let_def
        split: sum.splits prod.splits)
qed

lemma call_world:
  "accepted cmd \<Longrightarrow>
   snd (call rt fh cmd w) = snd (exchange rt fh (cbor2_dumps rt (table_request cmd)) w)"
  by (cases "exchange rt fh (cbor2_dumps rt (table_request cmd)) w")
    (auto simp: call_exchange and_then_def snd_classify split: sum.splits)

lemma call_rejected:
  "\<not> accepted cmd \<Longrightarrow>
   call rt fh cmd w =
     (Inl (ValueError ''GetRandom supports length between 1 and 256 inclusive.''), w)"
  by (cases cmd rule: accepted.cases) (auto simp: get_random_exchange raise_def)

lemma call_exchange_error:
  "accepted cmd \<Longrightarrow> fst (exchange rt fh (cbor2_dumps rt (table_request cmd)) w) = Inl e \<Longrightarrow>
   fst (call rt fh cmd w) = Inl e"
  by (simp add: call_exchange and_then_Inl)

lemma request_region_submitted:
  "request_region (operation, submitted_message w rd, submitted_memory w rd) = Some rd"
  by (simp add: request_region_def submitted_message_def read_submitted_request)

lemma sent_exchange:
  "sent w (snd (exchange rt fh rd w)) =
     (if length rd > NSM_REQUEST_MAX_SIZE then [] else [Some rd])"
  by (simp add: sent_def exchange_calls request_region_submitted)

lemma read_bytes_prefix:
  "read_bytes (write_bytes m a (out @ junk)) a (length out) = Some out"
  by (rule read_bytes_eqI) (simp add: write_bytes_def nth_append)

lemma exchange_sim:
  assumes "length rd \<le> NSM_REQUEST_MAX_SIZE"
  shows "fst (exchange (sim_runtime enc table) (sim_device out junk) rd w) = sim_loads table out"
  by (simp add: exchange_submits [OF assms nsm_operation_value] sim_device_def
      decode_response_def read_bytes_prefix sim_runtime_def Let_def)

lemma snd_and_then_pure:
  assumes "\<And>x w'. snd (f x w') = w'"
  shows "snd (and_then m f w) = snd (m w)"
  by (cases "m w") (auto simp: and_then_def assms split: sum.splits)

lemma sends_lock_pcr:
  "sends rt (lock_pcr rt fh index) w
     (PDict [(PStr ''LockPCR'', PDict [(PStr ''index'', PInt index)])])"
  by (simp add: sends_def lock_pcr_exchange snd_and_then_pure snd_lock_tail sent_exchange)

lemma sends_lock_pcrs:
  "sends rt (lock_pcrs rt fh lock_range) w
     (PDict [(PStr ''LockPCRs'', PDict [(PStr ''range'', PInt lock_range)])])"
  by (simp add: sends_def lock_pcrs_exchange snd_and_then_pure snd_lock_tail sent_exchange)

lemma sends_describe_pcr:
  "sends rt (describe_pcr rt fh index) w
     (PDict [(PStr ''DescribePCR'', PDict [(PStr ''index'', PInt index)])])"
  by (simp add: sends_def describe_pcr_exchange snd_and_then_pure snd_tag_tail sent_exchange)

lemma sends_extend_pcr:
  "sends rt (extend_pcr rt fh index data) w
     (PDict [(PStr ''ExtendPCR'', PDict [(PStr ''index'', PInt index), (PStr ''data'', PBytes data)])])"
  by (simp add: sends_def extend_pcr_exchange snd_and_then_pure snd_tag_tail sent_exchange)

lemma sends_get_attestation_doc:
  "sends rt (get_attestation_doc rt fh user_data nonce public_key) w
     (PDict [(PStr ''Attestation'', PDict [
        (PStr ''user_data'', case user_data of None \<Rightarrow> PNone | Some bs \<Rightarrow> PBytes bs),
        (PStr ''nonce'', case nonce of None \<Rightarrow> PNone | Some bs \<Rightarrow> PBytes bs),
        (PStr ''public_key'', case public_key of None \<Rightarrow> PNone | Some bs \<Rightarrow> PBytes bs)])])"
proof -
  have "nullable x = (case x of None \<Rightarrow> PNone | Some bs \<Rightarrow> PBytes bs)" for x
    by (cases x) simp_all
  then show ?thesis
    by (simp add: sends_def get_attestation_doc_exchange snd_and_then_pure snd_tag_tail
        sent_exchange)
qed

lemma sends_describe_nsm:
  "sends rt (describe_nsm rt fh) w (PStr ''DescribeNSM'')"
  by (simp add: sends_def describe_nsm_exchange snd_and_then_pure snd_tag_tail sent_exchange)

lemma sends_get_random:
  "1 \<le> requested_length length_arg \<Longrightarrow> requested_length length_arg \<le> 256 \<Longrightarrow>
   sends rt (get_random rt fh length_arg) w (PStr ''GetRandom'')"
  by (simp add: sends_def get_random_exchange snd_and_then_pure snd_random_tail sent_exchange)

lemma py_slice_to_again:
  assumes "0 \<le> n" and "n \<le> m" and "py_slice_to rb m = Inr v"
  shows "py_slice_to v n = py_slice_to rb n"
proof -
  have t: "take (nat n) (take (nat m) xs) = take (nat n) xs" for xs :: "'a list"
    using assms(1,2) by (simp add: min_def)
  from assms show ?thesis
    by (cases rb) (auto simp: slice_to_def t)
qed

lemma py_slice_to_error:
  "py_slice_to rb m = Inl e \<Longrightarrow> py_slice_to rb n = Inl e"
  by (cases rb) auto

lemma random_tail_shape:
  "\<exists>c. \<forall>n. random_tail n r w =
     ((case c of Inl e \<Rightarrow> Inl e | Inr rb \<Rightarrow> py_slice_to rb n), w)"
proof (cases "py_get r ''GetRandom''")
  case (Inl e)
  then have "\<forall>n. random_tail n r w = ((case Inl e of Inl e \<Rightarrow> Inl e | Inr rb \<Rightarrow> py_slice_to rb n), w)"
    by (simp add: random_tail_def and_then_def lift_def)
  then show ?thesis by blast
next
  case inner: (Inr inner)
  show ?thesis
  proof (cases "py_get inner ''random''")
    case (Inl e)
    with inner have "\<forall>n. random_tail n r w =
        ((case Inl e of Inl e \<Rightarrow> Inl e | Inr rb \<Rightarrow> py_slice_to rb n), w)"
      by (simp add: random_tail_def and_then_def lift_def)
    then show ?thesis by blast
  next
    case rb: (Inr rb)
    show ?thesis
    proof (cases "str_in ''GetRandom'' r")
      case (Inl e)
      with inner rb have "\<forall>n. random_tail n r w =
          ((case Inl e of Inl e \<Rightarrow> Inl e | Inr rb \<Rightarrow> py_slice_to rb n), w)"
        by (simp add: random_tail_def and_then_def lift_def)
      then show ?thesis by blast
    next
      case has: (Inr has_key)
      show ?thesis
      proof (cases has_key)
        case True
        with inner rb has have "\<forall>n. random_tail n r w =
            ((case Inr rb of Inl e \<Rightarrow> Inl e | Inr rb \<Rightarrow> py_slice_to rb n), w)"
          by (simp add: random_tail_def and_then_def lift_def)
        then show ?thesis by blast
      next
        case False
        obtain e where e: "fst (raise_IoctlError r w :: (error + pyval) \<times> world) = Inl e"
          and s: "snd (raise_IoctlError r w :: (error + pyval) \<times> world) = w"
          by (cases "py_get r ''Error''")
            (auto simp: raise_IoctlError_def and_then_def lift_def raise_def)
        then have "(raise_IoctlError r w :: (error + pyval) \<times> world) = (Inl e, w)"
          by (simp add: prod_eq_iff)
        with False inner rb has have "\<forall>n. random_tail n r w =
            ((case Inl e of Inl e \<Rightarrow> Inl e | Inr rb \<Rightarrow> py_slice_to rb n), w)"
          by (simp add: random_tail_def and_then_def lift_def)
        then show ?thesis by blast
      qed
    qed
  qed
qed

lemma random_tail_256:
  assumes "1 \<le> n" and "n \<le> 256"
  shows "fst (random_tail n r w) =
     (case fst (random_tail 256 r w) of Inl e \<Rightarrow> Inl e | Inr v \<Rightarrow> py_slice_to v n)"
proof -
  have n: "0 \<le> n" using assms by simp
  obtain c where c: "\<And>k. random_tail k r w =
     ((case c of Inl e \<Rightarrow> Inl e | Inr rb \<Rightarrow> py_slice_to rb k), w)"
    using random_tail_shape [of r w] by blast
  show ?thesis
  proof (cases c)
    case (Inl e)
    then show ?thesis by (simp add: c)
  next
    case (Inr rb)
    show ?thesis
    proof (cases "py_slice_to rb 256")
      case (Inl e)
      with Inr py_slice_to_error [OF Inl, of n] show ?thesis by (simp add: c)
    next
      case v: (Inr v)
      with Inr py_slice_to_again [OF n assms(2) v] show ?thesis by (simp add: c)
    qed
  qed
qed

lemma decodes_sim:
  assumes "length (enc tree) \<le> 4096" and "map_of table out = Some r"
  shows "decodes (sim_runtime enc table) (sim_device out junk) tree w r"
proof -
  have e: "cbor2_dumps (sim_runtime enc table) tree = enc tree"
    by (simp add: sim_runtime_def)
  from assms(1) have "length (enc tree) \<le> NSM_REQUEST_MAX_SIZE"
    by (simp add: NSM_REQUEST_MAX_SIZE_def)
  then show ?thesis
    by (simp add: decodes_def e exchange_sim sim_loads_def assms(2))
qed

lemma length_toy_dumps: "length (toy_dumps v) \<le> 4096"
  by (cases v) (simp_all add: toy_dumps_def)

lemma call_decoded:
  assumes "accepted cmd" and "decodes rt fh (table_request cmd) w r"
  shows "fst (call rt fh cmd w) =
     fst (classify cmd r (snd (exchange rt fh (cbor2_dumps rt (table_request cmd)) w)))"
  using assms by (simp add: decodes_def call_exchange and_then_Inr)

lemma classify_returns_tag:
  "returns_tag cmd \<Longrightarrow> classify cmd = tag_tail (command_tag cmd)"
  by (cases cmd) simp_all

lemma accepted_returns_tag: "returns_tag cmd \<Longrightarrow> accepted cmd"
  by (cases cmd) simp_all

lemma accepted_is_lock: "is_lock cmd \<Longrightarrow> accepted cmd"
  by (cases cmd) simp_all

lemma classify_is_lock:
  "is_lock cmd \<Longrightarrow>
   classify cmd r w =
     ((case dict_lookup r ''Error'' of None \<Rightarrow> Inr (PBool True) | Some v \<Rightarrow> Inl (IoctlError v)), w)"
  by (cases cmd) (simp_all add: and_then_def lock_tail_eq returns_def split: option.splits)

section \<open>The claims\<close>

text \<open>
  Claim C1, as the code has it. When the exchange ends with a decoded response that is a
  dict with the key \<^verbatim>\<open>'Error'\<close>: \<^verbatim>\<open>lock_pcr\<close> and \<^verbatim>\<open>lock_pcrs\<close> raise \<^verbatim>\<open>IoctlError\<close> with the
  value under \<^verbatim>\<open>'Error'\<close>; \<^verbatim>\<open>describe_pcr\<close>, \<^verbatim>\<open>get_attestation_doc\<close>, \<^verbatim>\<open>extend_pcr\<close> and
  \<^verbatim>\<open>describe_nsm\<close> do so when the dict does not also hold the command's own tag, since
  they test for the absence of that tag and not for \<^verbatim>\<open>'Error'\<close>.
\<close>

theorem error_tag_raises:
  "decodes rt fh (table_request cmd) w r \<and> dict_lookup r ''Error'' = Some v
   \<and> (is_lock cmd \<or> returns_tag cmd \<and> dict_lookup r (command_tag cmd) = None)
   \<longrightarrow> fst (call rt fh cmd w) = Inl (IoctlError v)"
proof
  assume h: "decodes rt fh (table_request cmd) w r \<and> dict_lookup r ''Error'' = Some v
   \<and> (is_lock cmd \<or> returns_tag cmd \<and> dict_lookup r (command_tag cmd) = None)"
  then have a: "accepted cmd"
    by (auto simp: accepted_is_lock accepted_returns_tag)
  from h have d: "decodes rt fh (table_request cmd) w r" by simp
  from h have dict: "isinstance_dict r"
    by (cases r) (simp_all add: dict_lookup_def)
  note c = call_decoded [OF a d]
  from h consider "is_lock cmd" | "returns_tag cmd" "dict_lookup r (command_tag cmd) = None"
    by auto
  then show "fst (call rt fh cmd w) = Inl (IoctlError v)"
  proof cases
    case 1
    with h show ?thesis by (simp add: c classify_is_lock)
  next
    case 2
    with h show ?thesis
      by (simp add: c classify_returns_tag tag_tail_missing [OF dict 2(2)])
  qed
qed

theorem error_tag_raises_witness:
  "fst (call (sim_runtime toy_dumps [([0xA1], PDict [(PStr ''Error'', PStr ''InvalidIndex'')])])
         (sim_device [0xA1] []) (LockPCR 4) boot) = Inl (IoctlError (PStr ''InvalidIndex''))
   \<and> fst (call (sim_runtime toy_dumps [([0xA1], PDict [(PStr ''Error'', PStr ''InvalidIndex'')])])
         (sim_device [0xA1] []) (DescribePCR 40) boot) = Inl (IoctlError (PStr ''InvalidIndex''))"
proof -
  note d = decodes_sim [OF length_toy_dumps]
  have a: "fst (call (sim_runtime toy_dumps [([0xA1], PDict [(PStr ''Error'', PStr ''InvalidIndex'')])])
         (sim_device [0xA1] []) (LockPCR 4) boot) = Inl (IoctlError (PStr ''InvalidIndex''))"
    using error_tag_raises [where cmd = "LockPCR 4" and w = boot and fh = "sim_device [0xA1] []"
        and rt = "sim_runtime toy_dumps [([0xA1], PDict [(PStr ''Error'', PStr ''InvalidIndex'')])]"
        and r = "PDict [(PStr ''Error'', PStr ''InvalidIndex'')]" and v = "PStr ''InvalidIndex''"]
    by (simp add: d dict_lookup_def)
  have b: "fst (call (sim_runtime toy_dumps [([0xA1], PDict [(PStr ''Error'', PStr ''InvalidIndex'')])])
         (sim_device [0xA1] []) (DescribePCR 40) boot) = Inl (IoctlError (PStr ''InvalidIndex''))"
    using error_tag_raises [where cmd = "DescribePCR 40" and w = boot
        and fh = "sim_device [0xA1] []"
        and rt = "sim_runtime toy_dumps [([0xA1], PDict [(PStr ''Error'', PStr ''InvalidIndex'')])]"
        and r = "PDict [(PStr ''Error'', PStr ''InvalidIndex'')]" and v = "PStr ''InvalidIndex''"]
    by (simp add: d dict_lookup_def)
  from a b show ?thesis by blast
qed

text \<open>
  Claim C1 as stated fails twice. A response with both \<^verbatim>\<open>'Error'\<close> and \<^verbatim>\<open>'DescribePCR'\<close>
  makes \<^verbatim>\<open>describe_pcr\<close> return the value under \<^verbatim>\<open>'DescribePCR'\<close>. And \<^verbatim>\<open>get_random\<close> reads
  \<^verbatim>\<open>decoded_response.get('GetRandom').get('random')\<close> before it tests for the tag, so the
  response \<^verbatim>\<open>{'Error': 'InternalError'}\<close> ends in \<^verbatim>\<open>AttributeError\<close>, not in \<^verbatim>\<open>IoctlError\<close>.
\<close>

theorem error_tag_counterexample:
  "decodes
     (sim_runtime toy_dumps
        [([0xA2], PDict [(PStr ''Error'', PStr ''InvalidIndex''), (PStr ''DescribePCR'', PDict [])])])
     (sim_device [0xA2] []) (PDict [(PStr ''DescribePCR'', PDict [(PStr ''index'', PInt 0)])]) boot
     (PDict [(PStr ''Error'', PStr ''InvalidIndex''), (PStr ''DescribePCR'', PDict [])])
   \<and> fst (describe_pcr
       (sim_runtime toy_dumps
          [([0xA2], PDict [(PStr ''Error'', PStr ''InvalidIndex''), (PStr ''DescribePCR'', PDict [])])])
       (sim_device [0xA2] []) 0 boot) = Inr (PDict [])
   \<and> decodes (sim_runtime toy_dumps [([0xA1], PDict [(PStr ''Error'', PStr ''InternalError'')])])
       (sim_device [0xA1] []) (PStr ''GetRandom'') boot
       (PDict [(PStr ''Error'', PStr ''InternalError'')])
   \<and> fst (get_random (sim_runtime toy_dumps [([0xA1], PDict [(PStr ''Error'', PStr ''InternalError'')])])
       (sim_device [0xA1] []) (Some 32) boot) = Inl AttributeError"
proof -
  note d = decodes_sim [OF length_toy_dumps]
  let ?rA = "PDict [(PStr ''Error'', PStr ''InvalidIndex''), (PStr ''DescribePCR'', PDict [])]"
  let ?rtA = "sim_runtime toy_dumps [([0xA2], ?rA)]"
  let ?rB = "PDict [(PStr ''Error'', PStr ''InternalError'')]"
  let ?rtB = "sim_runtime toy_dumps [([0xA1], ?rB)]"
  have dA: "decodes ?rtA (sim_device [0xA2] []) (table_request (DescribePCR 0)) boot ?rA"
    by (rule d) simp
  have dB: "decodes ?rtB (sim_device [0xA1] []) (table_request (GetRandom (Some 32))) boot ?rB"
    by (rule d) simp
  have a: "fst (describe_pcr ?rtA (sim_device [0xA2] []) 0 boot) = Inr (PDict [])"
    using call_decoded [OF _ dA]
    by (simp add: tag_tail_present dict_lookup_def)
  have b: "fst (get_random ?rtB (sim_device [0xA1] []) (Some 32) boot) = Inl AttributeError"
    using call_decoded [OF _ dB]
    by (simp add: random_tail_error_only dict_lookup_def)
  from dA dB a b show ?thesis by simp
qed

text \<open>
  Claim C2, as the code has it. For a length between 1 and 256, when the exchange ends
  with a response that holds a bytes object under \<^verbatim>\<open>'GetRandom'\<close> and \<^verbatim>\<open>'random'\<close>,
  \<^verbatim>\<open>get_random\<close> returns that object truncated to the length: the first bytes of it, as
  many as the length when the module returned at least that many, and all of them when it
  returned fewer. For a length below 1 or above 256 the call raises \<^verbatim>\<open>ValueError\<close> and
  leaves the world as it was, whatever the codec and the device: nothing was encoded,
  allocated or sent.
\<close>

theorem get_random_truncates:
  "(1 \<le> n \<and> n \<le> 256 \<and> decodes rt fh (PStr ''GetRandom'') w r
      \<and> dict_lookup r ''GetRandom'' = Some inner
      \<and> dict_lookup inner ''random'' = Some (PBytes bs) \<longrightarrow>
      fst (get_random rt fh (Some n) w) = Inr (PBytes (take (nat n) bs))
      \<and> length (take (nat n) bs) = min (nat n) (length bs))
   \<and> (n < 1 \<or> n > 256 \<longrightarrow>
        get_random rt fh (Some n) w =
          (Inl (ValueError ''GetRandom supports length between 1 and 256 inclusive.''), w))"
proof (intro conjI impI)
  assume h: "1 \<le> n \<and> n \<le> 256 \<and> decodes rt fh (PStr ''GetRandom'') w r
      \<and> dict_lookup r ''GetRandom'' = Some inner
      \<and> dict_lookup inner ''random'' = Some (PBytes bs)"
  then have a: "accepted (GetRandom (Some n))"
    and d: "decodes rt fh (table_request (GetRandom (Some n))) w r"
    by simp_all
  from h have t: "random_tail n r w' = (py_slice_to (PBytes bs) n, w')" for w'
    by (simp add: random_tail_present)
  from call_decoded [OF a d] h
  show "fst (get_random rt fh (Some n) w) = Inr (PBytes (take (nat n) bs))"
    by (simp add: t slice_to_def)
  show "length (take (nat n) bs) = min (nat n) (length bs)"
    by (simp add: min.commute)
next
  assume "n < 1 \<or> n > 256"
  then show "get_random rt fh (Some n) w =
          (Inl (ValueError ''GetRandom supports length between 1 and 256 inclusive.''), w)"
    by (simp add: get_random_exchange raise_def)
qed

theorem get_random_truncates_witness:
  "fst (get_random
      (sim_runtime toy_dumps
        [([0xA1], PDict [(PStr ''GetRandom'', PDict [(PStr ''random'', PBytes [9, 8, 7, 6])])])])
      (sim_device [0xA1] []) (Some 3) boot) = Inr (PBytes [9, 8, 7])
   \<and> get_random (sim_runtime toy_dumps []) (failing_device 13) (Some 257) boot =
       (Inl (ValueError ''GetRandom supports length between 1 and 256 inclusive.''), boot)
   \<and> get_random (sim_runtime toy_dumps []) (failing_device 13) (Some 0) boot =
       (Inl (ValueError ''GetRandom supports length between 1 and 256 inclusive.''), boot)"
proof -
  note d = decodes_sim [OF length_toy_dumps]
  have a: "fst (get_random
      (sim_runtime toy_dumps
        [([0xA1], PDict [(PStr ''GetRandom'', PDict [(PStr ''random'', PBytes [9, 8, 7, 6])])])])
      (sim_device [0xA1] []) (Some 3) boot) = Inr (PBytes [9, 8, 7])"
    using get_random_truncates [where n = 3 and w = boot and fh = "sim_device [0xA1] []"
        and rt = "sim_runtime toy_dumps
          [([0xA1], PDict [(PStr ''GetRandom'', PDict [(PStr ''random'', PBytes [9, 8, 7, 6])])])]"
        and r = "PDict [(PStr ''GetRandom'', PDict [(PStr ''random'', PBytes [9, 8, 7, 6])])]"
        and inner = "PDict [(PStr ''random'', PBytes [9, 8, 7, 6])]" and bs = "[9, 8, 7, 6]"]
    by (simp add: d dict_lookup_def numeral_3_eq_3)
  have b: "get_random (sim_runtime toy_dumps []) (failing_device 13) (Some 257) boot =
       (Inl (ValueError ''GetRandom supports length between 1 and 256 inclusive.''), boot)"
    using get_random_truncates [where n = 257 and w = boot and fh = "failing_device 13"
        and rt = "sim_runtime toy_dumps []"]
    by simp
  have c: "get_random (sim_runtime toy_dumps []) (failing_device 13) (Some 0) boot =
       (Inl (ValueError ''GetRandom supports length between 1 and 256 inclusive.''), boot)"
    using get_random_truncates [where n = 0 and w = boot and fh = "failing_device 13"
        and rt = "sim_runtime toy_dumps []"]
    by simp
  from a b c show ?thesis by blast
qed

text \<open>
  Claim C2 as stated fails when the module returns fewer bytes than the caller asked for:
  with length 32 and a response that holds two bytes, \<^verbatim>\<open>get_random\<close> returns the two bytes.
\<close>

theorem get_random_short_counterexample:
  "(1::int) \<le> 32 \<and> (32::int) \<le> 256
   \<and> decodes
       (sim_runtime toy_dumps
         [([0xA1], PDict [(PStr ''GetRandom'', PDict [(PStr ''random'', PBytes [1, 2])])])])
       (sim_device [0xA1] []) (PStr ''GetRandom'') boot
       (PDict [(PStr ''GetRandom'', PDict [(PStr ''random'', PBytes [1, 2])])])
   \<and> fst (get_random
       (sim_runtime toy_dumps
         [([0xA1], PDict [(PStr ''GetRandom'', PDict [(PStr ''random'', PBytes [1, 2])])])])
       (sim_device [0xA1] []) (Some 32) boot) = Inr (PBytes [1, 2])
   \<and> length [1 :: byte, 2] \<noteq> 32"
proof -
  let ?r = "PDict [(PStr ''GetRandom'', PDict [(PStr ''random'', PBytes [1, 2])])]"
  let ?rt = "sim_runtime toy_dumps [([0xA1], ?r)]"
  have d: "decodes ?rt (sim_device [0xA1] []) (table_request (GetRandom (Some 32))) boot ?r"
    by (rule decodes_sim [OF length_toy_dumps]) simp
  have t: "random_tail 32 ?r w' = (py_slice_to (PBytes [1, 2]) 32, w')" for w'
    by (rule random_tail_present [where inner = "PDict [(PStr ''random'', PBytes [1, 2])]"])
      (simp_all add: dict_lookup_def)
  have a: "fst (get_random ?rt (sim_device [0xA1] []) (Some 32) boot) = Inr (PBytes [1, 2])"
    using call_decoded [OF _ d]
    by (simp add: t slice_to_def)
  from d a show ?thesis by simp
qed

text \<open>
  Claim C3. For every command whose call passes the argument check: when the encoded
  request is longer than 4096 bytes, the call raises \<^verbatim>\<open>ValueError('Request too large.')\<close>
  and issues no ioctl call; when it has 4096 bytes or fewer, the check passes and the
  ioctl call is issued.
\<close>

theorem request_size_limit:
  assumes "accepted cmd"
  shows "(length (cbor2_dumps rt (table_request cmd)) > 4096 \<longrightarrow>
            fst (call rt fh cmd w) = Inl (ValueError ''Request too large.'')
            \<and> ioctl_calls (snd (call rt fh cmd w)) = ioctl_calls w)
       \<and> (length (cbor2_dumps rt (table_request cmd)) \<le> 4096 \<longrightarrow>
            length (ioctl_calls (snd (call rt fh cmd w))) = length (ioctl_calls w) + 1)"
proof (intro conjI impI)
  assume big: "length (cbor2_dumps rt (table_request cmd)) > 4096"
  then have big': "length (cbor2_dumps rt (table_request cmd)) > NSM_REQUEST_MAX_SIZE"
    by (simp add: NSM_REQUEST_MAX_SIZE_def)
  from assms show "fst (call rt fh cmd w) = Inl (ValueError ''Request too large.'')"
    by (rule call_exchange_error) (simp add: exchange_too_large [OF big'])
  from assms big' show "ioctl_calls (snd (call rt fh cmd w)) = ioctl_calls w"
    by (simp add: call_world exchange_calls)
next
  assume "length (cbor2_dumps rt (table_request cmd)) \<le> 4096"
  then have "\<not> length (cbor2_dumps rt (table_request cmd)) > NSM_REQUEST_MAX_SIZE"
    by (simp add: NSM_REQUEST_MAX_SIZE_def)
  with assms
  show "length (ioctl_calls (snd (call rt fh cmd w))) = length (ioctl_calls w) + 1"
    by (simp add: call_world exchange_calls)
qed


theorem request_size_limit_witness:
  "accepted (Attestation (Some [1, 2]) None None)
   \<and> length (cbor2_dumps (sim_runtime (\<lambda>v. replicate 4097 0) [])
        (table_request (Attestation (Some [1, 2]) None None))) > 4096
   \<and> fst (call (sim_runtime (\<lambda>v. replicate 4097 0) []) (sim_device [] [])
        (Attestation (Some [1, 2]) None None) boot) = Inl (ValueError ''Request too large.'')
   \<and> ioctl_calls (snd (call (sim_runtime (\<lambda>v. replicate 4097 0) []) (sim_device [] [])
        (Attestation (Some [1, 2]) None None) boot)) = ioctl_calls boot
   \<and> length (cbor2_dumps (sim_runtime (\<lambda>v. replicate 4096 0) [])
        (table_request (Attestation (Some [1, 2]) None None))) \<le> 4096
   \<and> length (ioctl_calls (snd (call (sim_runtime (\<lambda>v. replicate 4096 0) []) (sim_device [] [])
        (Attestation (Some [1, 2]) None None) boot))) = length (ioctl_calls boot) + 1"
proof -
  have a: "accepted (Attestation (Some [1, 2]) None None)"
    by simp
  have big: "length (cbor2_dumps (sim_runtime (\<lambda>v. replicate 4097 0) [])
        (table_request (Attestation (Some [1, 2]) None None))) > 4096"
    by (simp add: sim_runtime_def)
  have fits: "length (cbor2_dumps (sim_runtime (\<lambda>v. replicate 4096 0) [])
        (table_request (Attestation (Some [1, 2]) None None))) \<le> 4096"
    by (simp add: sim_runtime_def)
  note t1 = request_size_limit [OF a, of "sim_runtime (\<lambda>v. replicate 4097 0) []" "sim_device [] []" boot]
  note t2 = request_size_limit [OF a, of "sim_runtime (\<lambda>v. replicate 4096 0) []" "sim_device [] []" boot]
  from t1 big have r1: "fst (call (sim_runtime (\<lambda>v. replicate 4097 0) []) (sim_device [] [])
        (Attestation (Some [1, 2]) None None) boot) = Inl (ValueError ''Request too large.'')
      \<and> ioctl_calls (snd (call (sim_runtime (\<lambda>v. replicate 4097 0) []) (sim_device [] [])
        (Attestation (Some [1, 2]) None None) boot)) = ioctl_calls boot"
    by blast
  from t2 fits have r2: "length (ioctl_calls (snd (call (sim_runtime (\<lambda>v. replicate 4096 0) [])
        (sim_device [] []) (Attestation (Some [1, 2]) None None) boot)))
        = length (ioctl_calls boot) + 1"
    by blast
  from a big fits r1 r2 show ?thesis by blast
qed

text \<open>
  Claim C4. The operation code that \<^verbatim>\<open>_execute_ioctl\<close> passes to the kernel is computed:
  it is \<open>IOC\<close> of the direction read-and-write (3), the magic \<open>0x0A\<close>, the number
  \<open>0x00\<close> and the size of the \<open>NsmMessage\<close> structure. Under the LP64 data model an
  \<open>IoVec\<close> takes 16 bytes and the structure 32, and the code is 3223325184 (under ILP32
  it is another number, 3222276608). Two runtimes with the same structure size get the
  same code, and the code is what the ioctl call carries.
\<close>

theorem operation_code_derived:
  "nsm_operation rt =
     IOC (IOC_READ OR IOC_WRITE) NSM_IOCTL_MAGIC NSM_IOCTL_NUMBER
       (sizeof (NsmMessage_type (platform rt)))
   \<and> IOC_READ OR IOC_WRITE = 3 \<and> NSM_IOCTL_MAGIC = 0x0A \<and> NSM_IOCTL_NUMBER = 0x00
   \<and> sizeof (IoVec_type LP64) = 16 \<and> sizeof (NsmMessage_type LP64) = 32
   \<and> nsm_operation rt = Inr (case platform rt of LP64 \<Rightarrow> 3223325184 | ILP32 \<Rightarrow> 3222276608)
   \<and> (sizeof (NsmMessage_type (platform rt)) = sizeof (NsmMessage_type (platform rt'))
        \<longrightarrow> nsm_operation rt = nsm_operation rt')
   \<and> (platform rt = LP64 \<longrightarrow>
        ioctl_calls (snd (execute_ioctl rt fh nsm_message w)) =
          ioctl_calls w @ [(3223325184, nsm_message, memory w)])"
proof -
  have c1: "nsm_operation rt =
     IOC (IOC_READ OR IOC_WRITE) NSM_IOCTL_MAGIC NSM_IOCTL_NUMBER
       (sizeof (NsmMessage_type (platform rt)))"
    by (simp only: nsm_operation_def)
  have c2: "IOC_READ OR IOC_WRITE = 3"
    by (simp add: IOC_READ_def IOC_WRITE_def)
  have c3: "NSM_IOCTL_MAGIC = 0x0A" and c4: "NSM_IOCTL_NUMBER = 0x00"
    by (simp_all add: NSM_IOCTL_MAGIC_def NSM_IOCTL_NUMBER_def)
  have c5: "sizeof (IoVec_type LP64) = 16"
    by (simp add: sizeof_def IoVec_type_def c_struct_def c_void_p_def c_size_t_def align_up_def)
  have c6: "sizeof (NsmMessage_type LP64) = 32"
    by (simp add: sizeof_NsmMessage)
  have c7: "nsm_operation rt =
      Inr (case platform rt of LP64 \<Rightarrow> 3223325184 | ILP32 \<Rightarrow> 3222276608)"
    by (rule nsm_operation_value)
  have c8: "sizeof (NsmMessage_type (platform rt)) = sizeof (NsmMessage_type (platform rt'))
        \<longrightarrow> nsm_operation rt = nsm_operation rt'"
    by (simp add: nsm_operation_def)
  have c9: "platform rt = LP64 \<longrightarrow>
        ioctl_calls (snd (execute_ioctl rt fh nsm_message w)) =
          ioctl_calls w @ [(3223325184, nsm_message, memory w)]"
    by (simp add: execute_ioctl_calls nsm_operation_value)
  show ?thesis
    by (intro conjI) (rule c1 c2 c3 c4 c5 c6 c7 c8 c9)+
qed

theorem operation_code_derived_witness:
  "platform (sim_runtime (\<lambda>v. []) []) = LP64
   \<and> sizeof (NsmMessage_type (platform (sim_runtime (\<lambda>v. []) []))) =
       sizeof (NsmMessage_type (platform (sim_runtime (\<lambda>v. [1]) [])))
   \<and> nsm_operation (sim_runtime (\<lambda>v. []) []) = Inr 3223325184
   \<and> nsm_operation (sim_runtime (\<lambda>v. []) []) = nsm_operation (sim_runtime (\<lambda>v. [1]) [])
   \<and> ioctl_calls (snd (execute_ioctl (sim_runtime (\<lambda>v. []) []) (failing_device 13) NsmMessage_new boot))
       = ioctl_calls boot @ [(3223325184, NsmMessage_new, memory boot)]"
proof -
  note t = operation_code_derived [of "sim_runtime (\<lambda>v. []) []" "sim_runtime (\<lambda>v. [1]) []"
      "failing_device 13" NsmMessage_new boot]
  have p: "platform (sim_runtime (\<lambda>v. []) []) = LP64"
    by (simp add: sim_runtime_def)
  have s: "sizeof (NsmMessage_type (platform (sim_runtime (\<lambda>v. []) []))) =
       sizeof (NsmMessage_type (platform (sim_runtime (\<lambda>v. [1]) [])))"
    by (simp add: sim_runtime_def)
  from t have "nsm_operation (sim_runtime (\<lambda>v. []) []) =
      Inr (case platform (sim_runtime (\<lambda>v. []) []) of LP64 \<Rightarrow> 3223325184 | ILP32 \<Rightarrow> 3222276608)"
    by blast
  with p have v: "nsm_operation (sim_runtime (\<lambda>v. []) []) = Inr 3223325184"
    by simp
  from t s have d: "nsm_operation (sim_runtime (\<lambda>v. []) []) = nsm_operation (sim_runtime (\<lambda>v. [1]) [])"
    by blast
  from t p have e: "ioctl_calls
      (snd (execute_ioctl (sim_runtime (\<lambda>v. []) []) (failing_device 13) NsmMessage_new boot))
       = ioctl_calls boot @ [(3223325184, NsmMessage_new, memory boot)]"
    by blast
  from p s v d e show ?thesis by blast
qed

text \<open>
  Claim C5. \<^verbatim>\<open>_decode_response\<close> reads exactly \<open>iov_len\<close> bytes at \<open>iov_base\<close> of the response
  descriptor and hands exactly those bytes to the codec: the decoded bytes have length
  \<open>iov_len\<close>, and two memories that agree on these addresses give the same result,
  whatever lies behind them. Inside a command the descriptor is the one the kernel left:
  when the device returns a message and a memory, the command decodes the \<open>iov_len\<close> bytes
  that this message describes, not the 12288 bytes of the buffer.
\<close>

theorem decode_reads_used_length:
  "(read_bytes (memory w) (iov_base (response m)) (iov_len (response m)) = Some bs \<longrightarrow>
      decode_response rt m w = (cbor2_loads rt bs, w) \<and> length bs = iov_len (response m))
   \<and> ((\<forall>a. iov_base (response m) \<le> a \<and> a < iov_base (response m) + iov_len (response m)
            \<longrightarrow> memory w a = memory w' a) \<longrightarrow>
        fst (decode_response rt m w) = fst (decode_response rt m w'))
   \<and> (length rd \<le> 4096 \<and> nsm_operation rt = Inr operation
        \<and> fh operation (submitted_message w rd) (submitted_memory w rd) = Inr (m', mem')
        \<and> read_bytes mem' (iov_base (response m')) (iov_len (response m')) = Some bs' \<longrightarrow>
        fst (exchange rt fh rd w) = cbor2_loads rt bs' \<and> length bs' = iov_len (response m'))"
proof (intro conjI impI)
  assume h: "read_bytes (memory w) (iov_base (response m)) (iov_len (response m)) = Some bs"
  then show "decode_response rt m w = (cbor2_loads rt bs, w)"
    by (simp add: decode_response_def)
  from h show "length bs = iov_len (response m)"
    by (rule read_bytes_length)
next
  assume "\<forall>a. iov_base (response m) \<le> a \<and> a < iov_base (response m) + iov_len (response m)
            \<longrightarrow> memory w a = memory w' a"
  then have "read_bytes (memory w) (iov_base (response m)) (iov_len (response m)) =
      read_bytes (memory w') (iov_base (response m)) (iov_len (response m))"
    by (rule read_bytes_cong)
  then show "fst (decode_response rt m w) = fst (decode_response rt m w')"
    by (simp add: decode_response_def split: option.splits)
next
  assume h: "length rd \<le> 4096 \<and> nsm_operation rt = Inr operation
        \<and> fh operation (submitted_message w rd) (submitted_memory w rd) = Inr (m', mem')
        \<and> read_bytes mem' (iov_base (response m')) (iov_len (response m')) = Some bs'"
  then have le: "length rd \<le> NSM_REQUEST_MAX_SIZE" and op: "nsm_operation rt = Inr operation"
    by (simp_all add: NSM_REQUEST_MAX_SIZE_def)
  from h show "fst (exchange rt fh rd w) = cbor2_loads rt bs'"
    by (simp add: exchange_submits [OF le op] decode_response_def Let_def)
  from h have "read_bytes mem' (iov_base (response m')) (iov_len (response m')) = Some bs'"
    by simp
  then show "length bs' = iov_len (response m')"
    by (rule read_bytes_length)
qed


theorem decode_reads_used_length_witness:
  "decode_response (sim_runtime toy_dumps [([0xA1], PDict [(PStr ''LockPCR'', PDict [])])])
      \<lparr>request = \<lparr>iov_base = 0, iov_len = 0\<rparr>, response = \<lparr>iov_base = 100, iov_len = 1\<rparr>\<rparr>
      (boot\<lparr>memory := write_bytes (memory boot) 100 [0xA1, 0xFF, 0xFF]\<rparr>)
     = (Inr (PDict [(PStr ''LockPCR'', PDict [])]),
        boot\<lparr>memory := write_bytes (memory boot) 100 [0xA1, 0xFF, 0xFF]\<rparr>)
   \<and> length [0xA1 :: byte] = 1
   \<and> fst (decode_response (sim_runtime toy_dumps [])
        \<lparr>request = \<lparr>iov_base = 0, iov_len = 0\<rparr>, response = \<lparr>iov_base = 100, iov_len = 1\<rparr>\<rparr>
        (boot\<lparr>memory := write_bytes (memory boot) 100 [0xA1, 0xFF, 0xFF]\<rparr>))
     = fst (decode_response (sim_runtime toy_dumps [])
        \<lparr>request = \<lparr>iov_base = 0, iov_len = 0\<rparr>, response = \<lparr>iov_base = 100, iov_len = 1\<rparr>\<rparr>
        (boot\<lparr>memory := write_bytes (memory boot) 100 [0xA1, 0x00]\<rparr>))
   \<and> fst (exchange (sim_runtime toy_dumps [([0xA1], PDict [(PStr ''LockPCR'', PDict [])])])
        (sim_device [0xA1] [0xFF, 0xFF]) [0x69] boot) = Inr (PDict [(PStr ''LockPCR'', PDict [])])"
proof -
  let ?m = "\<lparr>request = \<lparr>iov_base = 0, iov_len = 0\<rparr>, response = \<lparr>iov_base = 100, iov_len = 1\<rparr>\<rparr>"
  let ?w = "boot\<lparr>memory := write_bytes (memory boot) 100 [0xA1, 0xFF, 0xFF]\<rparr>"
  let ?w' = "boot\<lparr>memory := write_bytes (memory boot) 100 [0xA1, 0x00]\<rparr>"
  let ?rt = "sim_runtime toy_dumps [([0xA1], PDict [(PStr ''LockPCR'', PDict [])])]"
  have r1: "read_bytes (memory ?w) (iov_base (response ?m)) (iov_len (response ?m)) = Some [0xA1]"
    using read_bytes_prefix [of "memory boot" 100 "[0xA1]" "[0xFF, 0xFF]"] by simp
  have a: "decode_response ?rt ?m ?w = (Inr (PDict [(PStr ''LockPCR'', PDict [])]), ?w)"
    using decode_reads_used_length [where w = ?w and m = ?m and bs = "[0xA1]" and rt = ?rt] r1
    by (simp add: sim_runtime_def sim_loads_def)
  have agree: "\<forall>a. iov_base (response ?m) \<le> a
        \<and> a < iov_base (response ?m) + iov_len (response ?m)
      \<longrightarrow> memory ?w a = memory ?w' a"
    by (simp add: write_bytes_def)
  have b: "fst (decode_response (sim_runtime toy_dumps []) ?m ?w)
      = fst (decode_response (sim_runtime toy_dumps []) ?m ?w')"
    using decode_reads_used_length [where w = ?w and w' = ?w' and m = ?m
        and rt = "sim_runtime toy_dumps []"] agree
    by blast
  let ?m' = "(submitted_message boot [0x69])\<lparr>response :=
      (response (submitted_message boot [0x69]))\<lparr>iov_len := length [0xA1 :: byte]\<rparr>\<rparr>"
  let ?mem' = "write_bytes (submitted_memory boot [0x69])
      (iov_base (response (submitted_message boot [0x69]))) ([0xA1] @ [0xFF, 0xFF])"
  have dev: "sim_device [0xA1] [0xFF, 0xFF] 3223325184 (submitted_message boot [0x69])
      (submitted_memory boot [0x69]) = Inr (?m', ?mem')"
    by (simp add: sim_device_def)
  have op: "nsm_operation ?rt = Inr 3223325184"
    by (simp add: nsm_operation_value sim_runtime_def)
  have r2: "read_bytes ?mem' (iov_base (response ?m')) (iov_len (response ?m')) = Some [0xA1]"
    using read_bytes_prefix [of "submitted_memory boot [0x69]"
        "iov_base (response (submitted_message boot [0x69]))" "[0xA1]" "[0xFF, 0xFF]"]
    by simp
  have c: "fst (exchange ?rt (sim_device [0xA1] [0xFF, 0xFF]) [0x69] boot)
      = Inr (PDict [(PStr ''LockPCR'', PDict [])])"
    using decode_reads_used_length [where rd = "[0x69]" and rt = ?rt and operation = 3223325184
        and fh = "sim_device [0xA1] [0xFF, 0xFF]" and w = boot and m' = ?m' and mem' = ?mem'
        and bs' = "[0xA1]"] dev op r2
    by (simp add: sim_runtime_def sim_loads_def)
  from a b c show ?thesis by simp
qed

text \<open>
  Claim C6. For \<^verbatim>\<open>describe_pcr\<close>, \<^verbatim>\<open>get_attestation_doc\<close>, \<^verbatim>\<open>extend_pcr\<close> and
  \<^verbatim>\<open>describe_nsm\<close>: when the exchange ends with a decoded response, the call returns the
  value under the command's tag, unchanged, if the response is a dict with that tag, and
  raises an error otherwise, also when there is no \<^verbatim>\<open>'Error'\<close> tag. A dict without the tag
  raises \<^verbatim>\<open>IoctlError\<close> with the value under \<^verbatim>\<open>'Error'\<close>, or with \<^verbatim>\<open>None\<close>.
\<close>

theorem tag_commands_result:
  "returns_tag cmd \<and> decodes rt fh (table_request cmd) w r \<longrightarrow>
     (case dict_lookup r (command_tag cmd) of
        Some v \<Rightarrow> fst (call rt fh cmd w) = Inr v
      | None \<Rightarrow>
          (\<exists>e. fst (call rt fh cmd w) = Inl e)
          \<and> (isinstance_dict r \<longrightarrow>
               fst (call rt fh cmd w) =
                 Inl (IoctlError (case dict_lookup r ''Error'' of None \<Rightarrow> PNone | Some x \<Rightarrow> x))))"
proof
  assume h: "returns_tag cmd \<and> decodes rt fh (table_request cmd) w r"
  let ?w = "snd (exchange rt fh (cbor2_dumps rt (table_request cmd)) w)"
  from h have "accepted cmd" and d: "decodes rt fh (table_request cmd) w r"
    by (simp_all add: accepted_returns_tag)
  from call_decoded [OF this] h
  have c: "fst (call rt fh cmd w) = fst (tag_tail (command_tag cmd) r ?w)"
    by (simp add: classify_returns_tag)
  show "case dict_lookup r (command_tag cmd) of
        Some v \<Rightarrow> fst (call rt fh cmd w) = Inr v
      | None \<Rightarrow>
          (\<exists>e. fst (call rt fh cmd w) = Inl e)
          \<and> (isinstance_dict r \<longrightarrow>
               fst (call rt fh cmd w) =
                 Inl (IoctlError (case dict_lookup r ''Error'' of None \<Rightarrow> PNone | Some x \<Rightarrow> x)))"
  proof (cases "dict_lookup r (command_tag cmd)")
    case (Some v)
    then show ?thesis by (simp add: c tag_tail_present)
  next
    case None
    from tag_tail_absent [OF None, of ?w] obtain e
      where "tag_tail (command_tag cmd) r ?w = (Inl e, ?w)" by blast
    then have "\<exists>e. fst (call rt fh cmd w) = Inl e" by (simp add: c)
    moreover have "isinstance_dict r \<longrightarrow>
               fst (call rt fh cmd w) =
                 Inl (IoctlError (case dict_lookup r ''Error'' of None \<Rightarrow> PNone | Some x \<Rightarrow> x))"
      by (simp add: c tag_tail_missing [OF _ None])
    ultimately show ?thesis using None by simp
  qed
qed


theorem tag_commands_result_witness:
  "fst (describe_pcr
      (sim_runtime toy_dumps
        [([0xA1], PDict [(PStr ''DescribePCR'',
            PDict [(PStr ''lock'', PBool False), (PStr ''data'', PBytes (replicate 32 0))])])])
      (sim_device [0xA1] []) 0 boot)
     = Inr (PDict [(PStr ''lock'', PBool False), (PStr ''data'', PBytes (replicate 32 0))])
   \<and> fst (describe_nsm (sim_runtime toy_dumps [([0xA0], PDict [])]) (sim_device [0xA0] []) boot)
     = Inl (IoctlError PNone)
   \<and> (\<exists>e. fst (extend_pcr (sim_runtime toy_dumps [([0x07], PInt 7)]) (sim_device [0x07] [])
               0 [1] boot) = Inl e)"
proof -
  note d = decodes_sim [OF length_toy_dumps]
  have a: "fst (describe_pcr
      (sim_runtime toy_dumps
        [([0xA1], PDict [(PStr ''DescribePCR'',
            PDict [(PStr ''lock'', PBool False), (PStr ''data'', PBytes (replicate 32 0))])])])
      (sim_device [0xA1] []) 0 boot)
     = Inr (PDict [(PStr ''lock'', PBool False), (PStr ''data'', PBytes (replicate 32 0))])"
    using tag_commands_result [where cmd = "DescribePCR 0" and w = boot
        and fh = "sim_device [0xA1] []"
        and rt = "sim_runtime toy_dumps
          [([0xA1], PDict [(PStr ''DescribePCR'',
              PDict [(PStr ''lock'', PBool False), (PStr ''data'', PBytes (replicate 32 0))])])]"
        and r = "PDict [(PStr ''DescribePCR'',
              PDict [(PStr ''lock'', PBool False), (PStr ''data'', PBytes (replicate 32 0))])]"]
    by (simp add: d dict_lookup_def)
  have b: "fst (describe_nsm (sim_runtime toy_dumps [([0xA0], PDict [])]) (sim_device [0xA0] [])
      boot) = Inl (IoctlError PNone)"
    using tag_commands_result [where cmd = DescribeNSM and w = boot
        and fh = "sim_device [0xA0] []" and rt = "sim_runtime toy_dumps [([0xA0], PDict [])]"
        and r = "PDict []"]
    by (simp add: d dict_lookup_def)
  have c: "\<exists>e. fst (extend_pcr (sim_runtime toy_dumps [([0x07], PInt 7)]) (sim_device [0x07] [])
               0 [1] boot) = Inl e"
    using tag_commands_result [where cmd = "ExtendPCR 0 [1]" and w = boot
        and fh = "sim_device [0x07] []" and rt = "sim_runtime toy_dumps [([0x07], PInt 7)]"
        and r = "PInt 7"]
    by (simp add: d dict_lookup_def)
  from a b c show ?thesis by blast
qed

text \<open>
  Claim C7. When the exchange of \<^verbatim>\<open>lock_pcr\<close> or \<^verbatim>\<open>lock_pcrs\<close> ends with a decoded
  response, the call raises \<^verbatim>\<open>IoctlError\<close> with the value under \<^verbatim>\<open>'Error'\<close> if the response
  is a dict with that key, and returns \<^verbatim>\<open>True\<close> for every other response, whatever its
  shape.
\<close>

theorem lock_commands_result:
  "(decodes rt fh (PDict [(PStr ''LockPCR'', PDict [(PStr ''index'', PInt index)])]) w r \<longrightarrow>
      fst (lock_pcr rt fh index w) =
        (case dict_lookup r ''Error'' of None \<Rightarrow> Inr True | Some v \<Rightarrow> Inl (IoctlError v)))
   \<and> (decodes rt fh (PDict [(PStr ''LockPCRs'', PDict [(PStr ''range'', PInt lock_range)])]) w r'
        \<longrightarrow>
      fst (lock_pcrs rt fh lock_range w) =
        (case dict_lookup r' ''Error'' of None \<Rightarrow> Inr True | Some v \<Rightarrow> Inl (IoctlError v)))"
proof (intro conjI impI)
  assume "decodes rt fh (PDict [(PStr ''LockPCR'', PDict [(PStr ''index'', PInt index)])]) w r"
  then have "fst (exchange rt fh (cbor2_dumps rt (table_request (LockPCR index))) w) = Inr r"
    by (simp add: decodes_def)
  then show "fst (lock_pcr rt fh index w) =
        (case dict_lookup r ''Error'' of None \<Rightarrow> Inr True | Some v \<Rightarrow> Inl (IoctlError v))"
    by (simp add: lock_pcr_exchange and_then_Inr lock_tail_eq)
next
  assume "decodes rt fh (PDict [(PStr ''LockPCRs'', PDict [(PStr ''range'', PInt lock_range)])]) w r'"
  then have "fst (exchange rt fh (cbor2_dumps rt (table_request (LockPCRs lock_range))) w) = Inr r'"
    by (simp add: decodes_def)
  then show "fst (lock_pcrs rt fh lock_range w) =
        (case dict_lookup r' ''Error'' of None \<Rightarrow> Inr True | Some v \<Rightarrow> Inl (IoctlError v))"
    by (simp add: lock_pcrs_exchange and_then_Inr lock_tail_eq)
qed

theorem lock_commands_result_witness:
  "fst (lock_pcr (sim_runtime toy_dumps [([0xA1], PDict [(PStr ''LockPCR'', PDict [])])])
         (sim_device [0xA1] []) 4 boot) = Inr True
   \<and> fst (lock_pcr (sim_runtime toy_dumps [([0xA1], PDict [(PStr ''Error'', PStr ''InvalidIndex'')])])
         (sim_device [0xA1] []) 4 boot) = Inl (IoctlError (PStr ''InvalidIndex''))
   \<and> fst (lock_pcrs (sim_runtime toy_dumps [([0x07], PInt 7)])
         (sim_device [0x07] []) 16 boot) = Inr True
   \<and> fst (lock_pcrs (sim_runtime toy_dumps [([0xA1], PDict [(PStr ''Error'', PStr ''ReadOnlyIndex'')])])
         (sim_device [0xA1] []) 16 boot) = Inl (IoctlError (PStr ''ReadOnlyIndex''))"
proof -
  note d = decodes_sim [OF length_toy_dumps]
  have a: "fst (lock_pcr (sim_runtime toy_dumps [([0xA1], PDict [(PStr ''LockPCR'', PDict [])])])
         (sim_device [0xA1] []) 4 boot) = Inr True"
    using lock_commands_result [where index = 4 and w = boot and fh = "sim_device [0xA1] []"
        and rt = "sim_runtime toy_dumps [([0xA1], PDict [(PStr ''LockPCR'', PDict [])])]"
        and r = "PDict [(PStr ''LockPCR'', PDict [])]"]
    by (simp add: d dict_lookup_def)
  have b: "fst (lock_pcr
         (sim_runtime toy_dumps [([0xA1], PDict [(PStr ''Error'', PStr ''InvalidIndex'')])])
         (sim_device [0xA1] []) 4 boot) = Inl (IoctlError (PStr ''InvalidIndex''))"
    using lock_commands_result [where index = 4 and w = boot and fh = "sim_device [0xA1] []"
        and rt = "sim_runtime toy_dumps [([0xA1], PDict [(PStr ''Error'', PStr ''InvalidIndex'')])]"
        and r = "PDict [(PStr ''Error'', PStr ''InvalidIndex'')]"]
    by (simp add: d dict_lookup_def)
  have c: "fst (lock_pcrs (sim_runtime toy_dumps [([0x07], PInt 7)])
         (sim_device [0x07] []) 16 boot) = Inr True"
    using lock_commands_result [where lock_range = 16 and w = boot and fh = "sim_device [0x07] []"
        and rt = "sim_runtime toy_dumps [([0x07], PInt 7)]" and r' = "PInt 7"]
    by (simp add: d dict_lookup_def)
  have e: "fst (lock_pcrs
         (sim_runtime toy_dumps [([0xA1], PDict [(PStr ''Error'', PStr ''ReadOnlyIndex'')])])
         (sim_device [0xA1] []) 16 boot) = Inl (IoctlError (PStr ''ReadOnlyIndex''))"
    using lock_commands_result [where lock_range = 16 and w = boot and fh = "sim_device [0xA1] []"
        and rt = "sim_runtime toy_dumps [([0xA1], PDict [(PStr ''Error'', PStr ''ReadOnlyIndex'')])]"
        and r' = "PDict [(PStr ''Error'', PStr ''ReadOnlyIndex'')]"]
    by (simp add: d dict_lookup_def)
  from a b c e show ?thesis by blast
qed

text \<open>
  Claim C8. Each command sends the value tree that the table of section 6 gives for it:
  the four commands with parameters a dict with the command tag as its only key and the
  parameter record under it; \<^verbatim>\<open>get_attestation_doc\<close> always with the three fields
  \<^verbatim>\<open>user_data\<close>, \<^verbatim>\<open>nonce\<close> and \<^verbatim>\<open>public_key\<close>, null for an argument the caller omits;
  \<^verbatim>\<open>describe_nsm\<close> and \<^verbatim>\<open>get_random\<close> the bare tag string.
\<close>

theorem encoded_request_table:
  "sends rt (lock_pcr rt fh index) w
     (PDict [(PStr ''LockPCR'', PDict [(PStr ''index'', PInt index)])])
   \<and> sends rt (lock_pcrs rt fh lock_range) w
     (PDict [(PStr ''LockPCRs'', PDict [(PStr ''range'', PInt lock_range)])])
   \<and> sends rt (describe_pcr rt fh index) w
     (PDict [(PStr ''DescribePCR'', PDict [(PStr ''index'', PInt index)])])
   \<and> sends rt (extend_pcr rt fh index data) w
     (PDict [(PStr ''ExtendPCR'', PDict [(PStr ''index'', PInt index), (PStr ''data'', PBytes data)])])
   \<and> sends rt (get_attestation_doc rt fh user_data nonce public_key) w
     (PDict [(PStr ''Attestation'', PDict [
        (PStr ''user_data'', case user_data of None \<Rightarrow> PNone | Some bs \<Rightarrow> PBytes bs),
        (PStr ''nonce'', case nonce of None \<Rightarrow> PNone | Some bs \<Rightarrow> PBytes bs),
        (PStr ''public_key'', case public_key of None \<Rightarrow> PNone | Some bs \<Rightarrow> PBytes bs)])])
   \<and> sends rt (describe_nsm rt fh) w (PStr ''DescribeNSM'')
   \<and> (1 \<le> n \<and> n \<le> 256 \<longrightarrow> sends rt (get_random rt fh (Some n)) w (PStr ''GetRandom''))
   \<and> sends rt (get_random rt fh None) w (PStr ''GetRandom'')"
  by (intro conjI impI sends_lock_pcr sends_lock_pcrs sends_describe_pcr sends_extend_pcr
      sends_get_attestation_doc sends_describe_nsm sends_get_random) simp_all


theorem encoded_request_table_witness:
  "sent boot (snd (lock_pcr (sim_runtime toy_dumps []) (sim_device [] []) 4 boot)) = [Some [0xA1]]
   \<and> sent boot (snd (lock_pcrs (sim_runtime toy_dumps []) (sim_device [] []) 16 boot))
       = [Some [0xA1]]
   \<and> sent boot (snd (describe_pcr (sim_runtime toy_dumps []) (sim_device [] []) 4 boot))
       = [Some [0xA1]]
   \<and> sent boot (snd (extend_pcr (sim_runtime toy_dumps []) (sim_device [] []) 4 [7, 7] boot))
       = [Some [0xA1]]
   \<and> sent boot (snd (get_attestation_doc (sim_runtime toy_dumps []) (sim_device [] [])
        None (Some [9]) None boot)) = [Some [0xA1]]
   \<and> sent boot (snd (describe_nsm (sim_runtime toy_dumps []) (sim_device [] []) boot))
       = [Some [0x6B]]
   \<and> (1::int) \<le> 16 \<and> (16::int) \<le> 256
   \<and> sent boot (snd (get_random (sim_runtime toy_dumps []) (sim_device [] []) (Some 16) boot))
       = [Some [0x69]]
   \<and> sent boot (snd (get_random (sim_runtime toy_dumps []) (sim_device [] []) None boot))
       = [Some [0x69]]"
proof -
  have e: "cbor2_dumps (sim_runtime toy_dumps []) v = toy_dumps v" for v
    by (simp add: sim_runtime_def)
  note t = encoded_request_table [where rt = "sim_runtime toy_dumps []"
      and fh = "sim_device [] []" and index = 4 and w = boot and lock_range = 16
      and data = "[7, 7]" and user_data = None and nonce = "Some [9]" and public_key = None
      and n = 16]
  from t show ?thesis
    by (simp add: sends_def e toy_dumps_def NSM_REQUEST_MAX_SIZE_def)
qed

text \<open>
  Claim C9. A call reaches the kernel exactly when it passes the argument check and its
  encoded request has at most 4096 bytes. It then issues one ioctl call, and in the
  message handed to the kernel the request descriptor's length is the length of the
  encoded request, the request region holds exactly the encoded request, and the response
  descriptor's length is 12288, whatever the command.
\<close>

theorem descriptor_lengths:
  "(accepted cmd \<and> length (cbor2_dumps rt (table_request cmd)) \<le> 4096 \<longrightarrow>
      (\<exists>operation nsm_message mem.
         ioctl_calls (snd (call rt fh cmd w)) = ioctl_calls w @ [(operation, nsm_message, mem)]
         \<and> iov_len (request nsm_message) = length (cbor2_dumps rt (table_request cmd))
         \<and> request_region (operation, nsm_message, mem) = Some (cbor2_dumps rt (table_request cmd))
         \<and> iov_len (response nsm_message) = 12288))
   \<and> (\<not> (accepted cmd \<and> length (cbor2_dumps rt (table_request cmd)) \<le> 4096) \<longrightarrow>
        ioctl_calls (snd (call rt fh cmd w)) = ioctl_calls w)"
proof (intro conjI impI)
  assume h: "accepted cmd \<and> length (cbor2_dumps rt (table_request cmd)) \<le> 4096"
  let ?rd = "cbor2_dumps rt (table_request cmd)"
  let ?op = "case platform rt of LP64 \<Rightarrow> 3223325184 | ILP32 \<Rightarrow> 3222276608"
  from h have "ioctl_calls (snd (call rt fh cmd w)) =
      ioctl_calls w @ [(?op, submitted_message w ?rd, submitted_memory w ?rd)]"
    by (simp add: call_world exchange_calls NSM_REQUEST_MAX_SIZE_def)
  moreover have "iov_len (request (submitted_message w ?rd)) = length ?rd"
    and "iov_len (response (submitted_message w ?rd)) = 12288"
    by (simp_all add: submitted_message_def NSM_RESPONSE_MAX_SIZE_def)
  moreover have "request_region (?op, submitted_message w ?rd, submitted_memory w ?rd) = Some ?rd"
    by (rule request_region_submitted)
  ultimately show "\<exists>operation nsm_message mem.
         ioctl_calls (snd (call rt fh cmd w)) = ioctl_calls w @ [(operation, nsm_message, mem)]
         \<and> iov_len (request nsm_message) = length ?rd
         \<and> request_region (operation, nsm_message, mem) = Some ?rd
         \<and> iov_len (response nsm_message) = 12288"
    by blast
next
  assume h: "\<not> (accepted cmd \<and> length (cbor2_dumps rt (table_request cmd)) \<le> 4096)"
  show "ioctl_calls (snd (call rt fh cmd w)) = ioctl_calls w"
  proof (cases "accepted cmd")
    case True
    with h show ?thesis
      by (simp add: call_world exchange_calls NSM_REQUEST_MAX_SIZE_def)
  next
    case False
    then show ?thesis by (simp add: call_rejected)
  qed
qed

theorem descriptor_lengths_witness:
  "accepted (ExtendPCR 3 [7, 7]) \<and> \<not> accepted (GetRandom (Some 0))
   \<and> length (cbor2_dumps (sim_runtime (\<lambda>v. [0xA1, 0x69]) []) (table_request (ExtendPCR 3 [7, 7])))
       \<le> 4096
   \<and> (\<exists>operation nsm_message mem.
         ioctl_calls (snd (call (sim_runtime (\<lambda>v. [0xA1, 0x69]) []) (failing_device 13)
            (ExtendPCR 3 [7, 7]) boot)) = ioctl_calls boot @ [(operation, nsm_message, mem)]
         \<and> iov_len (request nsm_message) = 2
         \<and> request_region (operation, nsm_message, mem) = Some [0xA1, 0x69]
         \<and> iov_len (response nsm_message) = 12288)
   \<and> ioctl_calls (snd (call (sim_runtime (\<lambda>v. [0xA1, 0x69]) []) (failing_device 13)
        (GetRandom (Some 0)) boot)) = ioctl_calls boot"
proof -
  let ?rt = "sim_runtime (\<lambda>v. [0xA1, 0x69]) []"
  have a: "accepted (ExtendPCR 3 [7, 7])" and n: "\<not> accepted (GetRandom (Some 0))"
    by simp_all
  have d: "cbor2_dumps ?rt (table_request (ExtendPCR 3 [7, 7])) = [0xA1, 0x69]"
    by (simp add: sim_runtime_def)
  have l: "length (cbor2_dumps ?rt (table_request (ExtendPCR 3 [7, 7]))) \<le> 4096"
    unfolding d by simp
  note t1 = descriptor_lengths [of "ExtendPCR 3 [7, 7]" ?rt "failing_device 13" boot]
  note t2 = descriptor_lengths [of "GetRandom (Some 0)" ?rt "failing_device 13" boot]
  from t1 a l have "\<exists>operation nsm_message mem.
         ioctl_calls (snd (call ?rt (failing_device 13) (ExtendPCR 3 [7, 7]) boot))
           = ioctl_calls boot @ [(operation, nsm_message, mem)]
         \<and> iov_len (request nsm_message)
             = length (cbor2_dumps ?rt (table_request (ExtendPCR 3 [7, 7])))
         \<and> request_region (operation, nsm_message, mem)
             = Some (cbor2_dumps ?rt (table_request (ExtendPCR 3 [7, 7])))
         \<and> iov_len (response nsm_message) = 12288"
    by blast
  then have r1: "\<exists>operation nsm_message mem.
         ioctl_calls (snd (call ?rt (failing_device 13) (ExtendPCR 3 [7, 7]) boot))
           = ioctl_calls boot @ [(operation, nsm_message, mem)]
         \<and> iov_len (request nsm_message) = 2
         \<and> request_region (operation, nsm_message, mem) = Some [0xA1, 0x69]
         \<and> iov_len (response nsm_message) = 12288"
    unfolding d by (simp add: numeral_2_eq_2)
  from t2 n have r2: "ioctl_calls (snd (call ?rt (failing_device 13) (GetRandom (Some 0)) boot))
      = ioctl_calls boot"
    by blast
  from a n l r1 r2 show ?thesis by blast
qed

text \<open>
  Claim C10. For two lengths between 1 and 256, \<^verbatim>\<open>get_random\<close> leaves the same world
  (the same ioctl calls with the same request bytes, the same memory); what it sends is
  the encoding of the bare tag \<^verbatim>\<open>'GetRandom'\<close>, in which the length does not occur. The
  length only truncates the decoded result: the result for a length is the result for
  256 sliced to that length. A call without a length is the call with length 32.
\<close>

theorem get_random_length_client_side:
  "(1 \<le> n1 \<and> n1 \<le> 256 \<and> 1 \<le> n2 \<and> n2 \<le> 256 \<longrightarrow>
      snd (get_random rt fh (Some n1) w) = snd (get_random rt fh (Some n2) w)
      \<and> sent w (snd (get_random rt fh (Some n1) w)) = sent w (snd (get_random rt fh (Some n2) w))
      \<and> sends rt (get_random rt fh (Some n1)) w (PStr ''GetRandom'')
      \<and> fst (get_random rt fh (Some n1) w) =
          (case fst (get_random rt fh (Some 256) w) of
             Inl e \<Rightarrow> Inl e
           | Inr v \<Rightarrow> py_slice_to v n1))
   \<and> get_random rt fh None = get_random rt fh (Some 32)"
proof (intro conjI impI)
  show "get_random rt fh None = get_random rt fh (Some 32)"
    by (simp add: get_random_exchange)
next
  assume h: "1 \<le> n1 \<and> n1 \<le> 256 \<and> 1 \<le> n2 \<and> n2 \<le> 256"
  let ?x = "exchange rt fh (cbor2_dumps rt (PStr ''GetRandom''))"
  have w1: "snd (get_random rt fh (Some n) w) = snd (?x w)" if "1 \<le> n" "n \<le> 256" for n
    using that by (simp add: get_random_exchange snd_and_then_pure snd_random_tail)
  from h show "snd (get_random rt fh (Some n1) w) = snd (get_random rt fh (Some n2) w)"
    by (simp add: w1)
  then show "sent w (snd (get_random rt fh (Some n1) w)) = sent w (snd (get_random rt fh (Some n2) w))"
    by simp
  from h show "sends rt (get_random rt fh (Some n1)) w (PStr ''GetRandom'')"
    by (simp add: sends_get_random)
  show "fst (get_random rt fh (Some n1) w) =
          (case fst (get_random rt fh (Some 256) w) of
             Inl e \<Rightarrow> Inl e
           | Inr v \<Rightarrow> py_slice_to v n1)"
  proof (cases "?x w")
    case (Pair res w')
    show ?thesis
    proof (cases res)
      case (Inl e)
      with Pair h show ?thesis
        by (simp add: get_random_exchange and_then_def)
    next
      case (Inr r)
      with Pair h random_tail_256 [of n1 r w'] show ?thesis
        by (simp add: get_random_exchange and_then_def)
    qed
  qed
qed



theorem get_random_length_client_side_witness:
  "(1::int) \<le> 16 \<and> (16::int) \<le> 256 \<and> (1::int) \<le> 200 \<and> (200::int) \<le> 256
   \<and> snd (get_random (sim_runtime toy_dumps []) (sim_device [0xA1] []) (Some 16) boot)
       = snd (get_random (sim_runtime toy_dumps []) (sim_device [0xA1] []) (Some 200) boot)
   \<and> sent boot (snd (get_random (sim_runtime toy_dumps []) (sim_device [0xA1] []) (Some 16) boot))
       = sent boot
           (snd (get_random (sim_runtime toy_dumps []) (sim_device [0xA1] []) (Some 200) boot))
   \<and> sent boot (snd (get_random (sim_runtime toy_dumps []) (sim_device [0xA1] []) (Some 16) boot))
       = [Some [0x69]]
   \<and> fst (get_random (sim_runtime toy_dumps []) (sim_device [0xA1] []) (Some 16) boot) =
         (case fst (get_random (sim_runtime toy_dumps []) (sim_device [0xA1] []) (Some 256) boot)
          of Inl e \<Rightarrow> Inl e | Inr v \<Rightarrow> py_slice_to v 16)
   \<and> get_random (sim_runtime toy_dumps []) (sim_device [0xA1] []) None
       = get_random (sim_runtime toy_dumps []) (sim_device [0xA1] []) (Some 32)"
proof -
  have r: "(1::int) \<le> 16 \<and> (16::int) \<le> 256 \<and> (1::int) \<le> 200 \<and> (200::int) \<le> 256"
    by simp
  have e: "cbor2_dumps (sim_runtime toy_dumps []) v = toy_dumps v" for v
    by (simp add: sim_runtime_def)
  note t = get_random_length_client_side [where ?n1.0 = 16 and ?n2.0 = 200
      and rt = "sim_runtime toy_dumps []" and fh = "sim_device [0xA1] []" and w = boot]
  from t r have
    a: "snd (get_random (sim_runtime toy_dumps []) (sim_device [0xA1] []) (Some 16) boot)
       = snd (get_random (sim_runtime toy_dumps []) (sim_device [0xA1] []) (Some 200) boot)"
    and b: "sent boot
        (snd (get_random (sim_runtime toy_dumps []) (sim_device [0xA1] []) (Some 16) boot))
       = sent boot
           (snd (get_random (sim_runtime toy_dumps []) (sim_device [0xA1] []) (Some 200) boot))"
    and c: "sends (sim_runtime toy_dumps [])
        (get_random (sim_runtime toy_dumps []) (sim_device [0xA1] []) (Some 16)) boot
        (PStr ''GetRandom'')"
    and d: "fst (get_random (sim_runtime toy_dumps []) (sim_device [0xA1] []) (Some 16) boot) =
         (case fst (get_random (sim_runtime toy_dumps []) (sim_device [0xA1] []) (Some 256) boot)
          of Inl e \<Rightarrow> Inl e | Inr v \<Rightarrow> py_slice_to v 16)"
    and f: "get_random (sim_runtime toy_dumps []) (sim_device [0xA1] []) None
       = get_random (sim_runtime toy_dumps []) (sim_device [0xA1] []) (Some 32)"
    by blast+
  from c have c': "sent boot
      (snd (get_random (sim_runtime toy_dumps []) (sim_device [0xA1] []) (Some 16) boot))
       = [Some [0x69]]"
    by (simp add: sends_def e toy_dumps_def NSM_REQUEST_MAX_SIZE_def)
  from r a b c' d f show ?thesis by blast
qed

end
